theory Spec2Isabelle
  imports Main
begin

section \<open>Provider identifiers\<close>

text \<open>
  The enumeration \<^verbatim>\<open>AIProvider\<close> of \<^verbatim>\<open>ai_model_manager.py\<close>, one constructor per
  member, in the order of the source.
\<close>

datatype AIProvider =
    RUNWAY_GEN3 | PIKA_LABS | STABILITY_VIDEO | MOONVALLEY | HAIPER | LUMA_DREAM | KLING
  | COGVIDEO
  | MIDJOURNEY | DALL_E_3 | STABLE_DIFFUSION_XL | FLUX_PRO | LEONARDO_AI | IDEOGRAM
  | SUNO_AI | UDIO | MUSICGEN | AUDIOCRAFT | ELEVENLABS | RIFFUSION
  | CLAUDE_3_OPUS | GPT_4_TURBO | GEMINI_ULTRA | LLAMA_3_405B
  | WONDER_DYNAMICS | DEEPMOTION | CASCADEUR | MOVE_AI | D_ID | HEYGEN | SYNTHESIA
  | PLAY_HT | MURF_AI | RESEMBLE_AI | DESCRIPT_OVERDUB
  | TOPAZ_VIDEO_AI | REAL_ESRGAN | FLOWFRAMES | DEOLDIFY

text \<open>The member's name, as \<^verbatim>\<open>str(member)\<close> prints it after the class name.\<close>

fun member_name :: "AIProvider \<Rightarrow> string" where
  "member_name RUNWAY_GEN3 = ''RUNWAY_GEN3''"
| "member_name PIKA_LABS = ''PIKA_LABS''"
| "member_name STABILITY_VIDEO = ''STABILITY_VIDEO''"
| "member_name MOONVALLEY = ''MOONVALLEY''"
| "member_name HAIPER = ''HAIPER''"
| "member_name LUMA_DREAM = ''LUMA_DREAM''"
| "member_name KLING = ''KLING''"
| "member_name COGVIDEO = ''COGVIDEO''"
| "member_name MIDJOURNEY = ''MIDJOURNEY''"
| "member_name DALL_E_3 = ''DALL_E_3''"
| "member_name STABLE_DIFFUSION_XL = ''STABLE_DIFFUSION_XL''"
| "member_name FLUX_PRO = ''FLUX_PRO''"
| "member_name LEONARDO_AI = ''LEONARDO_AI''"
| "member_name IDEOGRAM = ''IDEOGRAM''"
| "member_name SUNO_AI = ''SUNO_AI''"
| "member_name UDIO = ''UDIO''"
| "member_name MUSICGEN = ''MUSICGEN''"
| "member_name AUDIOCRAFT = ''AUDIOCRAFT''"
| "member_name ELEVENLABS = ''ELEVENLABS''"
| "member_name RIFFUSION = ''RIFFUSION''"
| "member_name CLAUDE_3_OPUS = ''CLAUDE_3_OPUS''"
| "member_name GPT_4_TURBO = ''GPT_4_TURBO''"
| "member_name GEMINI_ULTRA = ''GEMINI_ULTRA''"
| "member_name LLAMA_3_405B = ''LLAMA_3_405B''"
| "member_name WONDER_DYNAMICS = ''WONDER_DYNAMICS''"
| "member_name DEEPMOTION = ''DEEPMOTION''"
| "member_name CASCADEUR = ''CASCADEUR''"
| "member_name MOVE_AI = ''MOVE_AI''"
| "member_name D_ID = ''D_ID''"
| "member_name HEYGEN = ''HEYGEN''"
| "member_name SYNTHESIA = ''SYNTHESIA''"
| "member_name PLAY_HT = ''PLAY_HT''"
| "member_name MURF_AI = ''MURF_AI''"
| "member_name RESEMBLE_AI = ''RESEMBLE_AI''"
| "member_name DESCRIPT_OVERDUB = ''DESCRIPT_OVERDUB''"
| "member_name TOPAZ_VIDEO_AI = ''TOPAZ_VIDEO_AI''"
| "member_name REAL_ESRGAN = ''REAL_ESRGAN''"
| "member_name FLOWFRAMES = ''FLOWFRAMES''"
| "member_name DEOLDIFY = ''DEOLDIFY''"

section \<open>Python floats\<close>

text \<open>
  \<^verbatim>\<open>cost_per_request\<close> and the running total of \<^verbatim>\<open>estimate_cost\<close> are Python floats:
  IEEE 754 binary64 values, every operation rounded to nearest, ties to even. A finite value
  is \<open>Finite m e\<close>, standing for \<open>m * 2 ^ e\<close> with \<open>m\<close> odd (or \<open>Finite 0 0\<close> for zero),
  so that equal values are equal terms. The sign of zero is not kept: Python's \<^verbatim>\<open>==\<close>
  does not see it.
\<close>

datatype double = Finite int int | PosInf | NegInf | NaN

text \<open>The number of binary digits of a positive integer.\<close>

function bitlen :: "int \<Rightarrow> int" where
  "bitlen n = (if n \<le> 0 then 0 else 1 + bitlen (n div 2))"
  by pat_completeness auto
termination
  by (relation "measure nat") auto

declare bitlen.simps [simp del]

function strip_zeros :: "int \<Rightarrow> int \<Rightarrow> int \<times> int" where
  "strip_zeros m e =
     (if m = 0 then (0, 0) else if odd m then (m, e) else strip_zeros (m div 2) (e + 1))"
  by pat_completeness auto
termination
  by (relation "measure (\<lambda>(m, e). nat \<bar>m\<bar>)") auto

declare strip_zeros.simps [simp del]

text \<open>\<open>shl a k\<close> is \<open>a * 2 ^ k\<close> for \<open>k \<ge> 0\<close> and \<open>a\<close> itself otherwise.\<close>

definition shl :: "int \<Rightarrow> int \<Rightarrow> int" where
  "shl a k = (if 0 \<le> k then a * 2 ^ nat k else a)"

text \<open>The integer nearest to \<open>num / den\<close> (\<open>den > 0\<close>, \<open>num \<ge> 0\<close>), ties to even.\<close>

definition round_half_even :: "int \<Rightarrow> int \<Rightarrow> int" where
  "round_half_even num den = (let f = num div den; r = num mod den
     in if 2 * r < den then f else if den < 2 * r then f + 1
        else if even f then f else f + 1)"

text \<open>
  The double nearest to the rational \<open>p / q\<close> (\<open>q > 0\<close>): \<open>e0\<close> is the binary exponent of
  \<open>|p / q|\<close>, \<open>2 ^ s\<close> the spacing of doubles there (53 significant bits, subnormal below
  \<open>2 ^ - 1022\<close>), \<open>n\<close> the rounded significand; a result of \<open>2 ^ 1024\<close> or more is an
  infinity.
\<close>

definition round_ratio :: "int \<Rightarrow> int \<Rightarrow> double" where
  "round_ratio p q = (if p = 0 then Finite 0 0 else
     (let a = \<bar>p\<bar>;
          d = bitlen a - bitlen q;
          e0 = (if shl q d \<le> shl a (- d) then d else d - 1);
          s = max e0 (- 1022) - 52;
          n = round_half_even (shl a (- s)) (shl q s)
      in if 1025 \<le> bitlen n + s then (if 0 < p then PosInf else NegInf)
         else (case strip_zeros n s of (m, e) \<Rightarrow> Finite (if 0 < p then m else - m) e)))"

text \<open>The double nearest to \<open>m * 2 ^ e\<close>.\<close>

definition round_scaled :: "int \<Rightarrow> int \<Rightarrow> double" where
  "round_scaled m e = round_ratio (shl m e) (shl 1 (- e))"

text \<open>A decimal literal of the source: \<^verbatim>\<open>0.05\<close> is \<open>float_lit 5 2\<close>.\<close>

definition float_lit :: "int \<Rightarrow> nat \<Rightarrow> double" where
  "float_lit digits places = round_ratio digits (10 ^ places)"

fun fmul :: "double \<Rightarrow> double \<Rightarrow> double" where
  "fmul (Finite m1 e1) (Finite m2 e2) = round_scaled (m1 * m2) (e1 + e2)"
| "fmul NaN _ = NaN"
| "fmul _ NaN = NaN"
| "fmul (Finite m e) PosInf = (if m = 0 then NaN else if 0 < m then PosInf else NegInf)"
| "fmul (Finite m e) NegInf = (if m = 0 then NaN else if 0 < m then NegInf else PosInf)"
| "fmul PosInf (Finite m e) = (if m = 0 then NaN else if 0 < m then PosInf else NegInf)"
| "fmul NegInf (Finite m e) = (if m = 0 then NaN else if 0 < m then NegInf else PosInf)"
| "fmul PosInf PosInf = PosInf"
| "fmul PosInf NegInf = NegInf"
| "fmul NegInf PosInf = NegInf"
| "fmul NegInf NegInf = PosInf"

fun fadd :: "double \<Rightarrow> double \<Rightarrow> double" where
  "fadd (Finite m1 e1) (Finite m2 e2) =
     (let e = min e1 e2 in round_scaled (shl m1 (e1 - e) + shl m2 (e2 - e)) e)"
| "fadd NaN _ = NaN"
| "fadd _ NaN = NaN"
| "fadd PosInf NegInf = NaN"
| "fadd NegInf PosInf = NaN"
| "fadd PosInf _ = PosInf"
| "fadd NegInf _ = NegInf"
| "fadd _ PosInf = PosInf"
| "fadd _ NegInf = NegInf"

section \<open>Python values and errors\<close>

text \<open>
  The dynamically typed values that reach the manager: JSON from a vendor, the entries of a
  workflow step or of a batch task, keyword arguments. A \<^verbatim>\<open>dict\<close> with string keys is an
  association list in insertion order, read with \<open>map_of\<close>.
\<close>

datatype pyval =
    PNone | PBool bool | PInt int | PFloat double | PStr string | PBytes string
  | PEnum AIProvider | PList "pyval list" | PDict "(string \<times> pyval) list"

text \<open>
  Exceptions. Those the source raises itself carry its message; those raised by the
  interpreter carry at most the name or key they are about; \<open>ClientError\<close> is whatever the
  HTTP library raises.
\<close>

datatype error =
    ValueError string | NotImplementedError string | Exception string
  | KeyError string | IndexError | TypeError | AttributeError string | NameError string
  | OverflowError | ClientError string

text \<open>\<^verbatim>\<open>d.get(k)\<close> and \<^verbatim>\<open>d.get(k, default)\<close> on a \<^verbatim>\<open>dict\<close>.\<close>

definition dict_get :: "(string \<times> pyval) list \<Rightarrow> string \<Rightarrow> pyval" where
  "dict_get d k = (case map_of d k of None \<Rightarrow> PNone | Some v \<Rightarrow> v)"

definition dict_get_default :: "(string \<times> pyval) list \<Rightarrow> string \<Rightarrow> pyval \<Rightarrow> pyval" where
  "dict_get_default d k dflt = (case map_of d k of None \<Rightarrow> dflt | Some v \<Rightarrow> v)"

text \<open>\<^verbatim>\<open>float(i)\<close> as the arithmetic operators apply it to an \<^verbatim>\<open>int\<close> operand.\<close>

definition float_of_int :: "int \<Rightarrow> error + double" where
  "float_of_int i = (case round_scaled i 0 of
       Finite m e \<Rightarrow> Inr (Finite m e)
     | _ \<Rightarrow> Inl OverflowError)"

text \<open>\<^verbatim>\<open>c * v\<close> for a float \<open>c\<close>: numbers multiply, anything else is a \<^verbatim>\<open>TypeError\<close>.\<close>

fun py_float_mul :: "double \<Rightarrow> pyval \<Rightarrow> error + double" where
  "py_float_mul c (PInt i) =
     (case float_of_int i of Inl err \<Rightarrow> Inl err | Inr d \<Rightarrow> Inr (fmul c d))"
| "py_float_mul c (PBool b) = Inr (fmul c (if b then Finite 1 0 else Finite 0 0))"
| "py_float_mul c (PFloat d) = Inr (fmul c d)"
| "py_float_mul c _ = Inl TypeError"

section \<open>The registry\<close>

record APIConfig =
  provider :: AIProvider
  api_key :: string
  endpoint :: string
  version :: string
  rate_limit :: int
  cost_per_request :: double
  capabilities :: "string list"
  max_resolution :: "string option"
  max_duration :: "int option"
  supported_formats :: "string list option"

text \<open>\<^verbatim>\<open>os.getenv(name, "")\<close> over the process environment \<open>environ\<close>.\<close>

definition getenv :: "(string \<Rightarrow> string option) \<Rightarrow> string \<Rightarrow> string" where
  "getenv environ name = (case environ name of None \<Rightarrow> [] | Some v \<Rightarrow> v)"

text \<open>
  \<^verbatim>\<open>load_api_configs\<close>: sixteen assignments into the dictionary \<^verbatim>\<open>self.configs\<close>, in the
  order of the source.
\<close>

definition load_api_configs ::
  "(string \<Rightarrow> string option) \<Rightarrow> (AIProvider \<rightharpoonup> APIConfig) \<Rightarrow> (AIProvider \<rightharpoonup> APIConfig)" where
  "load_api_configs environ c0 = c0
    (RUNWAY_GEN3 \<mapsto> \<lparr>provider = RUNWAY_GEN3, api_key = getenv environ ''RUNWAY_API_KEY'',
       endpoint = ''https://api.runwayml.com/v1/'', version = ''gen3_alpha'',
       rate_limit = 10, cost_per_request = float_lit 5 2,
       capabilities = [''text2video'', ''image2video'', ''video2video''],
       max_resolution = Some ''1280x768'', max_duration = Some 10,
       supported_formats = Some [''mp4'', ''mov'']\<rparr>,
     PIKA_LABS \<mapsto> \<lparr>provider = PIKA_LABS, api_key = getenv environ ''PIKA_API_KEY'',
       endpoint = ''https://api.pika.art/v1/'', version = ''1.0'',
       rate_limit = 20, cost_per_request = float_lit 4 2,
       capabilities = [''text2video'', ''image2video'', ''video_editing''],
       max_resolution = Some ''1024x576'', max_duration = Some 3,
       supported_formats = Some [''mp4'', ''gif'']\<rparr>,
     LUMA_DREAM \<mapsto> \<lparr>provider = LUMA_DREAM, api_key = getenv environ ''LUMA_API_KEY'',
       endpoint = ''https://api.lumalabs.ai/dream-machine/v1/'', version = ''1.5'',
       rate_limit = 15, cost_per_request = float_lit 3 2,
       capabilities = [''text2video'', ''image2video'', ''keyframe_animation''],
       max_resolution = Some ''1920x1080'', max_duration = Some 5,
       supported_formats = Some [''mp4'', ''webm'']\<rparr>,
     KLING \<mapsto> \<lparr>provider = KLING, api_key = getenv environ ''KLING_API_KEY'',
       endpoint = ''https://api.kuaishou.com/kling/v1/'', version = ''1.0'',
       rate_limit = 10, cost_per_request = float_lit 2 2,
       capabilities = [''text2video'', ''image2video''],
       max_resolution = Some ''1280x720'', max_duration = Some 5,
       supported_formats = Some [''mp4'']\<rparr>,
     MIDJOURNEY \<mapsto> \<lparr>provider = MIDJOURNEY, api_key = getenv environ ''MIDJOURNEY_API_KEY'',
       endpoint = ''https://api.midjourney.com/v1/'', version = ''6.0'',
       rate_limit = 10, cost_per_request = float_lit 2 2,
       capabilities = [''text2image'', ''image_variation'', ''upscale'', ''style_transfer''],
       max_resolution = Some ''2048x2048'', max_duration = None,
       supported_formats = Some [''png'', ''jpg'', ''webp'']\<rparr>,
     DALL_E_3 \<mapsto> \<lparr>provider = DALL_E_3, api_key = getenv environ ''OPENAI_API_KEY'',
       endpoint = ''https://api.openai.com/v1/images/'', version = ''dall-e-3'',
       rate_limit = 5, cost_per_request = float_lit 4 2,
       capabilities = [''text2image'', ''image_edit'', ''image_variation''],
       max_resolution = Some ''1792x1024'', max_duration = None,
       supported_formats = Some [''png'', ''jpg'']\<rparr>,
     FLUX_PRO \<mapsto> \<lparr>provider = FLUX_PRO, api_key = getenv environ ''FLUX_API_KEY'',
       endpoint = ''https://api.blackforestlabs.ai/v1/'', version = ''flux.1_pro'',
       rate_limit = 20, cost_per_request = float_lit 1 2,
       capabilities = [''text2image'', ''controlnet'', ''inpainting''],
       max_resolution = Some ''2048x2048'', max_duration = None,
       supported_formats = Some [''png'', ''jpg'']\<rparr>,
     LEONARDO_AI \<mapsto> \<lparr>provider = LEONARDO_AI, api_key = getenv environ ''LEONARDO_API_KEY'',
       endpoint = ''https://cloud.leonardo.ai/api/rest/v1/'', version = ''1.0'',
       rate_limit = 30, cost_per_request = float_lit 5 3,
       capabilities = [''text2image'', ''consistent_character'', ''game_assets''],
       max_resolution = Some ''1024x1024'', max_duration = None,
       supported_formats = Some [''png'', ''jpg'']\<rparr>,
     SUNO_AI \<mapsto> \<lparr>provider = SUNO_AI, api_key = getenv environ ''SUNO_API_KEY'',
       endpoint = ''https://api.suno.ai/v1/'', version = ''3.5'',
       rate_limit = 10, cost_per_request = float_lit 8 2,
       capabilities = [''text2music'', ''lyrics_generation'', ''style_remix''],
       max_resolution = None, max_duration = Some 240,
       supported_formats = Some [''mp3'', ''wav'', ''flac'']\<rparr>,
     UDIO \<mapsto> \<lparr>provider = UDIO, api_key = getenv environ ''UDIO_API_KEY'',
       endpoint = ''https://api.udio.com/v1/'', version = ''1.0'',
       rate_limit = 10, cost_per_request = float_lit 6 2,
       capabilities = [''text2music'', ''music_extension'', ''stem_separation''],
       max_resolution = None, max_duration = Some 300,
       supported_formats = Some [''mp3'', ''wav'']\<rparr>,
     ELEVENLABS \<mapsto> \<lparr>provider = ELEVENLABS, api_key = getenv environ ''ELEVENLABS_API_KEY'',
       endpoint = ''https://api.elevenlabs.io/v1/'', version = ''2.0'',
       rate_limit = 20, cost_per_request = float_lit 1 2,
       capabilities = [''text2speech'', ''voice_cloning'', ''speech2speech''],
       max_resolution = None, max_duration = None,
       supported_formats = Some [''mp3'', ''wav'', ''flac'']\<rparr>,
     CLAUDE_3_OPUS \<mapsto> \<lparr>provider = CLAUDE_3_OPUS,
       api_key = getenv environ ''ANTHROPIC_API_KEY'',
       endpoint = ''https://api.anthropic.com/v1/'', version = ''claude-3-opus-20240229'',
       rate_limit = 10, cost_per_request = float_lit 15 3,
       capabilities = [''script_writing'', ''dialogue'', ''story_generation'', ''editing''],
       max_resolution = None, max_duration = None, supported_formats = None\<rparr>,
     GPT_4_TURBO \<mapsto> \<lparr>provider = GPT_4_TURBO, api_key = getenv environ ''OPENAI_API_KEY'',
       endpoint = ''https://api.openai.com/v1/'', version = ''gpt-4-turbo-preview'',
       rate_limit = 10, cost_per_request = float_lit 1 2,
       capabilities = [''script_writing'', ''code_generation'', ''analysis''],
       max_resolution = None, max_duration = None, supported_formats = None\<rparr>,
     WONDER_DYNAMICS \<mapsto> \<lparr>provider = WONDER_DYNAMICS,
       api_key = getenv environ ''WONDER_API_KEY'',
       endpoint = ''https://api.wonderdynamics.com/v1/'', version = ''1.0'',
       rate_limit = 5, cost_per_request = float_lit 1 1,
       capabilities = [''mocap'', ''body_tracking'', ''face_tracking'', ''cg_integration''],
       max_resolution = None, max_duration = None,
       supported_formats = Some [''fbx'', ''bvh'', ''usd'']\<rparr>,
     HEYGEN \<mapsto> \<lparr>provider = HEYGEN, api_key = getenv environ ''HEYGEN_API_KEY'',
       endpoint = ''https://api.heygen.com/v1/'', version = ''2.0'',
       rate_limit = 10, cost_per_request = float_lit 5 2,
       capabilities = [''avatar_video'', ''voice_sync'', ''translation''],
       max_resolution = Some ''1920x1080'', max_duration = None,
       supported_formats = Some [''mp4'', ''webm'']\<rparr>,
     TOPAZ_VIDEO_AI \<mapsto> \<lparr>provider = TOPAZ_VIDEO_AI,
       api_key = getenv environ ''TOPAZ_API_KEY'',
       endpoint = ''https://api.topazlabs.com/v1/'', version = ''3.0'',
       rate_limit = 5, cost_per_request = float_lit 1 1,
       capabilities = [''upscaling'', ''denoising'', ''stabilization'', ''frame_interpolation''],
       max_resolution = Some ''8192x8192'', max_duration = None,
       supported_formats = Some [''mp4'', ''mov'', ''avi'']\<rparr>)"

section \<open>The manager and its HTTP session\<close>

text \<open>
  What the manager does to the outside world, in order: the HTTP requests it sends through
  its \<^verbatim>\<open>aiohttp\<close> session (URL, headers and, for a POST, the JSON body), the calls of
  \<^verbatim>\<open>asyncio.sleep\<close>, and the closing of the session.
\<close>

datatype event =
    Post string "(string \<times> string) list" pyval
  | Get string "(string \<times> string) list"
  | Sleep nat
  | Close

text \<open>
  A response is read with \<^verbatim>\<open>await response.json()\<close> or \<^verbatim>\<open>await response.read()\<close>; each
  may raise.
\<close>

record response =
  json :: "error + pyval"
  read :: "error + string"

text \<open>
  The session with the vendors behind it: given the events so far, a request is answered
  with a response, or raises. Nothing is assumed about the answers.
\<close>

type_synonym session = "event list \<Rightarrow> event \<Rightarrow> error + response"

record manager =
  configs :: "AIProvider \<rightharpoonup> APIConfig"
  session :: "session option"

text \<open>\<^verbatim>\<open>AIModelManager.__init__\<close>, \<^verbatim>\<open>initialize\<close> and \<^verbatim>\<open>close\<close>.\<close>

definition init :: "(string \<Rightarrow> string option) \<Rightarrow> manager" where
  "init environ = \<lparr>configs = load_api_configs environ Map.empty, session = None\<rparr>"

definition initialize :: "session \<Rightarrow> manager \<Rightarrow> manager" where
  "initialize client_session self =
     (if session self = None then self\<lparr>session := Some client_session\<rparr> else self)"

definition close :: "manager \<Rightarrow> event list \<Rightarrow> event list" where
  "close self log = (if session self \<noteq> None then log @ [Close] else log)"

text \<open>
  Looking a value up as a key of \<^verbatim>\<open>self.configs\<close>, whose keys are enumeration members:
  a list or a dictionary cannot be hashed, any other value that is not a member is not a key.
\<close>

fun hashable :: "pyval \<Rightarrow> bool" where
  "hashable (PList _) = False"
| "hashable (PDict _) = False"
| "hashable _ = True"

text \<open>\<^verbatim>\<open>self.configs.get(key)\<close>; \<^verbatim>\<open>key in self.configs\<close> is whether it finds a config.\<close>

fun configs_get :: "(AIProvider \<rightharpoonup> APIConfig) \<Rightarrow> pyval \<Rightarrow> error + APIConfig option" where
  "configs_get c (PEnum p) = Inr (c p)"
| "configs_get c (PList _) = Inl TypeError"
| "configs_get c (PDict _) = Inl TypeError"
| "configs_get c _ = Inr None"

section \<open>Cost estimation\<close>

text \<open>
  \<^verbatim>\<open>estimate_cost\<close>: the loop over the workflow with its running total. A step is a
  dictionary; a step whose provider is not a key of \<^verbatim>\<open>self.configs\<close> leaves the total as
  it is.
\<close>

fun estimate_cost_loop ::
  "manager \<Rightarrow> double \<Rightarrow> (string \<times> pyval) list list \<Rightarrow> error + double" where
  "estimate_cost_loop self total_cost [] = Inr total_cost"
| "estimate_cost_loop self total_cost (step # workflow) =
     (case configs_get (configs self) (dict_get step ''provider'') of
        Inl err \<Rightarrow> Inl err
      | Inr None \<Rightarrow> estimate_cost_loop self total_cost workflow
      | Inr (Some config) \<Rightarrow>
          (case py_float_mul (cost_per_request config)
                  (dict_get_default step ''count'' (PInt 1)) of
             Inl err \<Rightarrow> Inl err
           | Inr x \<Rightarrow> estimate_cost_loop self (fadd total_cost x) workflow))"

definition estimate_cost :: "manager \<Rightarrow> (string \<times> pyval) list list \<Rightarrow> error + double" where
  "estimate_cost self workflow = estimate_cost_loop self (Finite 0 0) workflow"

text \<open>An empty process environment: no credential is set.\<close>

definition no_environ :: "string \<Rightarrow> string option" where
  "no_environ name = None"

text \<open>
  The cost estimate in the words of the specification: of an ordered sequence of
  (identifier, count) pairs, keep those whose identifier the registry knows, and add
  \<open>cost_per_request * count\<close> for each to a running total that starts at \<open>0.0\<close>.
\<close>

definition step_of :: "pyval \<times> int \<Rightarrow> (string \<times> pyval) list" where
  "step_of op = [(''provider'', fst op), (''count'', PInt (snd op))]"

fun known_pairs :: "manager \<Rightarrow> (pyval \<times> int) list \<Rightarrow> (APIConfig \<times> int) list" where
  "known_pairs self [] = []"
| "known_pairs self ((ident, n) # ops) =
     (case configs_get (configs self) ident of
        Inr (Some config) \<Rightarrow> (config, n) # known_pairs self ops
      | _ \<Rightarrow> known_pairs self ops)"

definition spec_total :: "(APIConfig \<times> int) list \<Rightarrow> double" where
  "spec_total kps =
     foldl (\<lambda>total (config, n). fadd total (fmul (cost_per_request config) (round_scaled n 0)))
       (Finite 0 0) kps"

text \<open>
  The planned operation that a workflow step stands for: its provider and its count, where a
  step that carries no count counts once.
\<close>

definition planned :: "(string \<times> pyval) list \<Rightarrow> pyval \<times> int" where
  "planned step =
     (dict_get step ''provider'',
      case map_of step ''count'' of Some (PInt n) \<Rightarrow> n | _ \<Rightarrow> 1)"

text \<open>A step whose count, if it has one, is an integer that fits a float.\<close>

definition countable :: "(string \<times> pyval) list \<Rightarrow> bool" where
  "countable step =
     (case map_of step ''count'' of
        None \<Rightarrow> True
      | Some (PInt n) \<Rightarrow> float_of_int n \<noteq> Inl OverflowError
      | Some _ \<Rightarrow> False)"

section \<open>Operations on Python values\<close>

text \<open>Truth of a value in a condition (\<^verbatim>\<open>if image:\<close>, \<^verbatim>\<open>genre or "pop"\<close>).\<close>

fun truthy :: "pyval \<Rightarrow> bool" where
  "truthy PNone = False"
| "truthy (PBool b) = b"
| "truthy (PInt i) = (i \<noteq> 0)"
| "truthy (PFloat d) = (case d of Finite m e \<Rightarrow> m \<noteq> 0 | _ \<Rightarrow> True)"
| "truthy (PStr s) = (s \<noteq> [])"
| "truthy (PBytes b) = (b \<noteq> [])"
| "truthy (PEnum p) = True"
| "truthy (PList xs) = (xs \<noteq> [])"
| "truthy (PDict d) = (d \<noteq> [])"

text \<open>\<^verbatim>\<open>a or b\<close>.\<close>

definition py_or :: "pyval \<Rightarrow> pyval \<Rightarrow> pyval" where
  "py_or a b = (if truthy a then a else b)"

text \<open>\<^verbatim>\<open>v[key]\<close> with a string key: only a dictionary takes one.\<close>

fun subscript :: "pyval \<Rightarrow> string \<Rightarrow> error + pyval" where
  "subscript (PDict d) k = (case map_of d k of None \<Rightarrow> Inl (KeyError k) | Some v \<Rightarrow> Inr v)"
| "subscript _ k = Inl TypeError"

text \<open>
  \<^verbatim>\<open>v[0]\<close>: the first item of a list, string or bytes value; a dictionary of this model has
  string keys only, so the key \<^verbatim>\<open>0\<close> is missing.
\<close>

fun subscript0 :: "pyval \<Rightarrow> error + pyval" where
  "subscript0 (PList xs) = (case xs of [] \<Rightarrow> Inl IndexError | x # _ \<Rightarrow> Inr x)"
| "subscript0 (PStr s) = (case s of [] \<Rightarrow> Inl IndexError | c # _ \<Rightarrow> Inr (PStr [c]))"
| "subscript0 (PBytes b) =
     (case b of [] \<Rightarrow> Inl IndexError | c # _ \<Rightarrow> Inr (PInt (of_char c)))"
| "subscript0 (PDict d) = Inl (KeyError ''0'')"
| "subscript0 _ = Inl TypeError"

text \<open>\<^verbatim>\<open>v.get(key)\<close>: a method of dictionaries only.\<close>

fun py_get :: "pyval \<Rightarrow> string \<Rightarrow> error + pyval" where
  "py_get (PDict d) k = Inr (dict_get d k)"
| "py_get _ k = Inl (AttributeError ''get'')"

text \<open>Whether the integer \<open>m\<close> is less than a float, compared exactly as Python does.\<close>

fun int_less_double :: "int \<Rightarrow> double \<Rightarrow> bool" where
  "int_less_double m (Finite n e) = (if 0 \<le> e then m < shl n e else shl m (- e) < n)"
| "int_less_double m PosInf = True"
| "int_less_double m NegInf = False"
| "int_less_double m NaN = False"

text \<open>
  \<^verbatim>\<open>min(duration, config.max_duration)\<close>: the built-in keeps its first argument unless the
  second is less, so it evaluates \<^verbatim>\<open>max_duration < duration\<close>. That comparison raises
  \<^verbatim>\<open>TypeError\<close> when \<^verbatim>\<open>max_duration\<close> is \<^verbatim>\<open>None\<close>, and when \<^verbatim>\<open>duration\<close> is not a number.
\<close>

fun py_min :: "pyval \<Rightarrow> int option \<Rightarrow> error + pyval" where
  "py_min duration None = Inl TypeError"
| "py_min (PInt d) (Some m) = Inr (if m < d then PInt m else PInt d)"
| "py_min (PBool b) (Some m) = Inr (if m < (if b then 1 else 0) then PInt m else PBool b)"
| "py_min (PFloat d) (Some m) = Inr (if int_less_double m d then PInt m else PFloat d)"
| "py_min _ (Some m) = Inl TypeError"

text \<open>
  \<^verbatim>\<open>v += s\<close> for a string \<open>s\<close>: concatenation on a string; a list is extended by the
  characters of \<open>s\<close>; nothing else accepts a string.
\<close>

fun py_iadd_str :: "pyval \<Rightarrow> string \<Rightarrow> error + pyval" where
  "py_iadd_str (PStr a) s = Inr (PStr (a @ s))"
| "py_iadd_str (PList xs) s = Inr (PList (xs @ map (\<lambda>c. PStr [c]) s))"
| "py_iadd_str _ s = Inl TypeError"

text \<open>
  Functions of the Python library that the manager calls and whose results the model takes
  as given: the text that an f-string produces for a float, a bytes value, a list or a
  dictionary, and \<^verbatim>\<open>base64.b64encode(b).decode('utf-8')\<close>.
\<close>

record pylib =
  format_other :: "pyval \<Rightarrow> string"
  b64encode :: "string \<Rightarrow> string"

function decimal :: "nat \<Rightarrow> string" where
  "decimal n = (if n < 10 then [char_of (48 + n)]
     else decimal (n div 10) @ [char_of (48 + n mod 10)])"
  by pat_completeness auto
termination
  by (relation "measure id") auto

declare decimal.simps [simp del]

text \<open>The text of a value inside an f-string, \<^verbatim>\<open>f"{v}"\<close>.\<close>

fun py_format :: "pylib \<Rightarrow> pyval \<Rightarrow> string" where
  "py_format lib (PStr s) = s"
| "py_format lib PNone = ''None''"
| "py_format lib (PBool b) = (if b then ''True'' else ''False'')"
| "py_format lib (PInt i) = (if i < 0 then CHR ''-'' # decimal (nat (- i)) else decimal (nat i))"
| "py_format lib (PEnum p) = ''AIProvider.'' @ member_name p"
| "py_format lib v = format_other lib v"

section \<open>Requests through the session\<close>

text \<open>
  \<^verbatim>\<open>self.session.post(url, headers=..., json=data)\<close> and \<^verbatim>\<open>self.session.get(url,
  headers=...)\<close>: with no session (\<^verbatim>\<open>initialize\<close> was never awaited) the attribute lookup on
  \<^verbatim>\<open>None\<close> fails and nothing is sent; otherwise the request is recorded and the session answers.
\<close>

definition session_post ::
  "manager \<Rightarrow> string \<Rightarrow> (string \<times> string) list \<Rightarrow> pyval \<Rightarrow> event list
     \<Rightarrow> (error + response) \<times> event list" where
  "session_post self url headers data log =
     (case session self of
        None \<Rightarrow> (Inl (AttributeError ''post''), log)
      | Some s \<Rightarrow> (s log (Post url headers data), log @ [Post url headers data]))"

definition session_get ::
  "manager \<Rightarrow> string \<Rightarrow> (string \<times> string) list \<Rightarrow> event list
     \<Rightarrow> (error + response) \<times> event list" where
  "session_get self url headers log =
     (case session self of
        None \<Rightarrow> (Inl (AttributeError ''get''), log)
      | Some s \<Rightarrow> (s log (Get url headers), log @ [Get url headers]))"

text \<open>The \<^verbatim>\<open>Authorization\<close> and \<^verbatim>\<open>Content-Type\<close> headers that most adapters build.\<close>

definition bearer_headers :: "APIConfig \<Rightarrow> (string \<times> string) list" where
  "bearer_headers config =
     [(''Authorization'', ''Bearer '' @ api_key config), (''Content-Type'', ''application/json'')]"

section \<open>Video adapters\<close>

text \<open>
  \<^verbatim>\<open>_runway_gen3_video\<close>, in three parts: the dictionary \<^verbatim>\<open>data\<close> with the optional
  \<^verbatim>\<open>init_image\<close>, the polling loop, and the adapter itself. (A leading underscore is not
  part of an Isabelle name, and the parameter \<^verbatim>\<open>image\<close> is written \<open>img\<close>.)
\<close>

definition runway_gen3_data ::
  "pylib \<Rightarrow> pyval \<Rightarrow> pyval \<Rightarrow> pyval \<Rightarrow> pyval \<Rightarrow> APIConfig \<Rightarrow> error + pyval" where
  "runway_gen3_data lib prompt img duration resolution config =
     (case py_min duration (max_duration config) of
        Inl err \<Rightarrow> Inl err
      | Inr seconds \<Rightarrow>
          (let data = [(''text_prompt'', prompt), (''duration'', seconds),
                       (''resolution'', resolution), (''model'', PStr (version config))]
           in if truthy img then
                (case img of
                   PBytes b \<Rightarrow> Inr (PDict (data @ [(''init_image'', PStr (b64encode lib b))]))
                 | _ \<Rightarrow> Inl TypeError)
              else Inr (PDict data)))"

partial_function (option) runway_gen3_poll ::
  "manager \<Rightarrow> pylib \<Rightarrow> APIConfig \<Rightarrow> pyval \<Rightarrow> event list
     \<Rightarrow> ((error + pyval) \<times> event list) option" where
  "runway_gen3_poll self lib config generation_id log =
     (case session_get self (endpoint config @ ''generations/'' @ py_format lib generation_id)
             (bearer_headers config) log of
        (Inl err, log1) \<Rightarrow> Some (Inl err, log1)
      | (Inr status_response, log1) \<Rightarrow>
          (case json status_response of
             Inl err \<Rightarrow> Some (Inl err, log1)
           | Inr status_data \<Rightarrow>
               (case subscript status_data ''status'' of
                  Inl err \<Rightarrow> Some (Inl err, log1)
                | Inr status \<Rightarrow>
                    if status = PStr ''completed'' then
                      (case subscript status_data ''output_url'' of
                         Inl err \<Rightarrow> Some (Inl err, log1)
                       | Inr output_url \<Rightarrow>
                           Some (Inr (PDict [(''url'', output_url),
                                             (''provider'', PStr ''Runway Gen-3''),
                                             (''cost'', PFloat (cost_per_request config))]),
                                 log1))
                    else if status = PStr ''failed'' then
                      (case py_get status_data ''error'' of
                         Inl err \<Rightarrow> Some (Inl err, log1)
                       | Inr reason \<Rightarrow>
                           Some (Inl (Exception (''Generation failed: '' @ py_format lib reason)),
                                 log1))
                    else runway_gen3_poll self lib config generation_id (log1 @ [Sleep 5]))))"

definition runway_gen3_video ::
  "manager \<Rightarrow> pylib \<Rightarrow> pyval \<Rightarrow> pyval \<Rightarrow> pyval \<Rightarrow> pyval \<Rightarrow> APIConfig \<Rightarrow> event list
     \<Rightarrow> ((error + pyval) \<times> event list) option" where
  "runway_gen3_video self lib prompt img duration resolution config log =
     (case runway_gen3_data lib prompt img duration resolution config of
        Inl err \<Rightarrow> Some (Inl err, log)
      | Inr data \<Rightarrow>
          (case session_post self (endpoint config @ ''generations'') (bearer_headers config)
                  data log of
             (Inl err, log1) \<Rightarrow> Some (Inl err, log1)
           | (Inr response, log1) \<Rightarrow>
               (case json response of
                  Inl err \<Rightarrow> Some (Inl err, log1)
                | Inr result \<Rightarrow>
                    (case py_get result ''id'' of
                       Inl err \<Rightarrow> Some (Inl err, log1)
                     | Inr generation_id \<Rightarrow>
                         runway_gen3_poll self lib config generation_id log1))))"

text \<open>
  \<^verbatim>\<open>_pika_video\<close>. The dictionary display evaluates its values in order: the prompt, the
  clamped duration, the resolution, and then \<^verbatim>\<open>kwargs.get("motion", 3)\<close>. The function has
  no parameter \<^verbatim>\<open>kwargs\<close> and the module no global of that name, so this raises
  \<^verbatim>\<open>NameError\<close>; the statements after it (the optional image, the POST to
  \<^verbatim>\<open>generate\<close>, the result with \<^verbatim>\<open>video_url\<close>) are never reached.
\<close>

definition pika_video ::
  "manager \<Rightarrow> pylib \<Rightarrow> pyval \<Rightarrow> pyval \<Rightarrow> pyval \<Rightarrow> pyval \<Rightarrow> APIConfig \<Rightarrow> event list
     \<Rightarrow> (error + pyval) \<times> event list" where
  "pika_video self lib prompt img duration resolution config log =
     (case py_min duration (max_duration config) of
        Inl err \<Rightarrow> (Inl err, log)
      | Inr seconds \<Rightarrow> (Inl (NameError ''kwargs''), log))"

section \<open>Image, music, voice and script adapters\<close>

text \<open>
  \<^verbatim>\<open>_midjourney_image\<close>: the prompt with the style directives appended, the polling loop,
  and the adapter. The loop has one exit, the status \<^verbatim>\<open>completed\<close>.
\<close>

definition midjourney_prompt ::
  "pylib \<Rightarrow> pyval \<Rightarrow> pyval \<Rightarrow> (string \<times> pyval) list \<Rightarrow> error + pyval" where
  "midjourney_prompt lib prompt style kwargs =
     (case (if truthy style then py_iadd_str prompt ('' --style '' @ py_format lib style)
            else Inr prompt) of
        Inl err \<Rightarrow> Inl err
      | Inr p1 \<Rightarrow>
     (case (if truthy (dict_get kwargs ''aspect_ratio'')
            then py_iadd_str p1 ('' --ar '' @ py_format lib (dict_get kwargs ''aspect_ratio''))
            else Inr p1) of
        Inl err \<Rightarrow> Inl err
      | Inr p2 \<Rightarrow>
     (case (if truthy (dict_get kwargs ''quality'')
            then py_iadd_str p2 ('' --q '' @ py_format lib (dict_get kwargs ''quality''))
            else Inr p2) of
        Inl err \<Rightarrow> Inl err
      | Inr p3 \<Rightarrow>
          (if truthy (dict_get kwargs ''stylize'')
           then py_iadd_str p3 ('' --s '' @ py_format lib (dict_get kwargs ''stylize''))
           else Inr p3))))"

partial_function (option) midjourney_poll ::
  "manager \<Rightarrow> pylib \<Rightarrow> APIConfig \<Rightarrow> pyval \<Rightarrow> event list
     \<Rightarrow> ((error + pyval) \<times> event list) option" where
  "midjourney_poll self lib config job_id log =
     (case session_get self (endpoint config @ ''job/'' @ py_format lib job_id)
             (bearer_headers config) log of
        (Inl err, log1) \<Rightarrow> Some (Inl err, log1)
      | (Inr status_response, log1) \<Rightarrow>
          (case json status_response of
             Inl err \<Rightarrow> Some (Inl err, log1)
           | Inr status_data \<Rightarrow>
               (case subscript status_data ''status'' of
                  Inl err \<Rightarrow> Some (Inl err, log1)
                | Inr status \<Rightarrow>
                    if status = PStr ''completed'' then
                      (case subscript status_data ''image_urls'' of
                         Inl err \<Rightarrow> Some (Inl err, log1)
                       | Inr image_urls \<Rightarrow>
                           Some (Inr (PDict [(''urls'', image_urls),
                                             (''provider'', PStr ''Midjourney''),
                                             (''cost'', PFloat (cost_per_request config))]),
                                 log1))
                    else midjourney_poll self lib config job_id (log1 @ [Sleep 3]))))"

definition midjourney_image ::
  "manager \<Rightarrow> pylib \<Rightarrow> pyval \<Rightarrow> pyval \<Rightarrow> APIConfig \<Rightarrow> (string \<times> pyval) list \<Rightarrow> event list
     \<Rightarrow> ((error + pyval) \<times> event list) option" where
  "midjourney_image self lib prompt style config kwargs log =
     (case midjourney_prompt lib prompt style kwargs of
        Inl err \<Rightarrow> Some (Inl err, log)
      | Inr full_prompt \<Rightarrow>
          (case session_post self (endpoint config @ ''imagine'') (bearer_headers config)
                  (PDict [(''prompt'', full_prompt), (''version'', PStr (version config))])
                  log of
             (Inl err, log1) \<Rightarrow> Some (Inl err, log1)
           | (Inr response, log1) \<Rightarrow>
               (case json response of
                  Inl err \<Rightarrow> Some (Inl err, log1)
                | Inr result \<Rightarrow>
                    (case subscript result ''job_id'' of
                       Inl err \<Rightarrow> Some (Inl err, log1)
                     | Inr job_id \<Rightarrow> midjourney_poll self lib config job_id log1))))"

text \<open>\<^verbatim>\<open>_suno_music\<close>: the dictionary \<^verbatim>\<open>data\<close> with the optional lyrics, and the adapter.\<close>

definition suno_data ::
  "pyval \<Rightarrow> pyval \<Rightarrow> pyval \<Rightarrow> APIConfig \<Rightarrow> (string \<times> pyval) list \<Rightarrow> error + pyval" where
  "suno_data prompt duration genre config kwargs =
     (case py_min duration (max_duration config) of
        Inl err \<Rightarrow> Inl err
      | Inr seconds \<Rightarrow>
          (let data = [(''prompt'', prompt), (''duration'', seconds),
                       (''tags'', py_or genre (PStr ''pop'')),
                       (''instrumental'', dict_get_default kwargs ''instrumental'' (PBool False)),
                       (''make_public'', PBool False)]
           in if truthy (dict_get kwargs ''lyrics'')
              then Inr (PDict (data @ [(''lyrics'', dict_get kwargs ''lyrics'')]))
              else Inr (PDict data)))"

definition suno_music ::
  "manager \<Rightarrow> pyval \<Rightarrow> pyval \<Rightarrow> pyval \<Rightarrow> APIConfig \<Rightarrow> (string \<times> pyval) list \<Rightarrow> event list
     \<Rightarrow> (error + pyval) \<times> event list" where
  "suno_music self prompt duration genre config kwargs log =
     (case suno_data prompt duration genre config kwargs of
        Inl err \<Rightarrow> (Inl err, log)
      | Inr data \<Rightarrow>
          (case session_post self (endpoint config @ ''generate'') (bearer_headers config)
                  data log of
             (Inl err, log1) \<Rightarrow> (Inl err, log1)
           | (Inr response, log1) \<Rightarrow>
               (case json response of
                  Inl err \<Rightarrow> (Inl err, log1)
                | Inr result \<Rightarrow>
                    (case subscript result ''audio_url'' of
                       Inl err \<Rightarrow> (Inl err, log1)
                     | Inr audio_url \<Rightarrow>
                         (case py_get result ''lyrics'' of
                            Inl err \<Rightarrow> (Inl err, log1)
                          | Inr lyrics \<Rightarrow>
                              (Inr (PDict [(''url'', audio_url), (''provider'', PStr ''Suno AI''),
                                           (''cost'', PFloat (cost_per_request config)),
                                           (''lyrics'', lyrics)]),
                               log1))))))"

text \<open>\<^verbatim>\<open>_elevenlabs_voice\<close>; the parameter \<^verbatim>\<open>text\<close> is written \<open>spoken_text\<close>.\<close>

definition elevenlabs_voice ::
  "manager \<Rightarrow> pylib \<Rightarrow> pyval \<Rightarrow> pyval \<Rightarrow> APIConfig \<Rightarrow> (string \<times> pyval) list \<Rightarrow> event list
     \<Rightarrow> (error + pyval) \<times> event list" where
  "elevenlabs_voice self lib spoken_text voice_id config kwargs log =
     (let headers = [(''xi-api-key'', api_key config), (''Content-Type'', ''application/json'')];
          data = PDict [(''text'', spoken_text), (''model_id'', PStr ''eleven_multilingual_v2''),
                   (''voice_settings'', PDict
                      [(''stability'', dict_get_default kwargs ''stability'' (PFloat (float_lit 5 1))),
                       (''similarity_boost'',
                          dict_get_default kwargs ''similarity'' (PFloat (float_lit 5 1))),
                       (''style'', dict_get_default kwargs ''style'' (PFloat (float_lit 0 1))),
                       (''use_speaker_boost'', PBool True)])];
          voice = py_or voice_id (PStr ''21m00Tcm4TlvDq8ikWAM'')
      in case session_post self (endpoint config @ ''text-to-speech/'' @ py_format lib voice)
                headers data log of
           (Inl err, log1) \<Rightarrow> (Inl err, log1)
         | (Inr response, log1) \<Rightarrow>
             (case read response of
                Inl err \<Rightarrow> (Inl err, log1)
              | Inr audio_data \<Rightarrow>
                  (Inr (PDict [(''audio'', PBytes audio_data), (''provider'', PStr ''ElevenLabs''),
                               (''cost'', PFloat (cost_per_request config))]),
                   log1)))"

text \<open>\<^verbatim>\<open>_claude_script\<close>.\<close>

definition claude_script ::
  "manager \<Rightarrow> pyval \<Rightarrow> pyval \<Rightarrow> APIConfig \<Rightarrow> (string \<times> pyval) list \<Rightarrow> event list
     \<Rightarrow> (error + pyval) \<times> event list" where
  "claude_script self prompt max_tokens config kwargs log =
     (let headers = [(''x-api-key'', api_key config), (''anthropic-version'', ''2023-06-01''),
                     (''Content-Type'', ''application/json'')];
          system_prompt = dict_get_default kwargs ''system''
            (PStr ''You are a professional screenwriter and creative director.'');
          data = PDict [(''model'', PStr (version config)), (''max_tokens'', max_tokens),
                   (''messages'', PList [PDict [(''role'', PStr ''user''), (''content'', prompt)]]),
                   (''system'', system_prompt),
                   (''temperature'', dict_get_default kwargs ''temperature'' (PFloat (float_lit 7 1)))]
      in case session_post self (endpoint config @ ''messages'') headers data log of
           (Inl err, log1) \<Rightarrow> (Inl err, log1)
         | (Inr response, log1) \<Rightarrow>
             (case json response of
                Inl err \<Rightarrow> (Inl err, log1)
              | Inr result \<Rightarrow>
                  (case subscript result ''content'' of
                     Inl err \<Rightarrow> (Inl err, log1)
                   | Inr content \<Rightarrow>
                       (case subscript0 content of
                          Inl err \<Rightarrow> (Inl err, log1)
                        | Inr block \<Rightarrow>
                            (case subscript block ''text'' of
                               Inl err \<Rightarrow> (Inl err, log1)
                             | Inr answer \<Rightarrow>
                                 (Inr (PDict [(''text'', answer),
                                              (''provider'', PStr ''Claude 3 Opus''),
                                              (''cost'', PFloat (cost_per_request config))]),
                                  log1))))))"

section \<open>Capability entry points\<close>

text \<open>
  A call that ends in \<^verbatim>\<open>**params\<close>, such as \<^verbatim>\<open>f(x, provider, **params)\<close>: \<^verbatim>\<open>params\<close>
  must be a dictionary, and must not name \<^verbatim>\<open>self\<close> or a parameter that the call already
  fills by position; otherwise Python raises \<^verbatim>\<open>TypeError\<close> before the function starts.
  The entry points make such a call to their adapter, \<^verbatim>\<open>self._suno_music(prompt, duration,
  genre, config, **kwargs)\<close>, and \<^verbatim>\<open>_process_task\<close> makes one to the entry point.
  \<open>keywords_only\<close> is what remains for \<^verbatim>\<open>**kwargs\<close> once the parameters that the function
  names are taken out.
\<close>

definition call_keywords :: "string list \<Rightarrow> pyval \<Rightarrow> error + (string \<times> pyval) list" where
  "call_keywords positional params =
     (case params of
        PDict d \<Rightarrow>
          if filter (\<lambda>k. map_of d k \<noteq> None) (''self'' # positional) = [] then Inr d
          else Inl TypeError
      | _ \<Rightarrow> Inl TypeError)"

definition keywords_only :: "string list \<Rightarrow> (string \<times> pyval) list \<Rightarrow> (string \<times> pyval) list" where
  "keywords_only named d = filter (\<lambda>kv. fst kv \<notin> set named) d"

text \<open>
  Each entry point looks the provider up in \<^verbatim>\<open>self.configs\<close>, raises \<^verbatim>\<open>ValueError\<close> when
  there is no config, and then walks its chain of comparisons. The branches for Luma, Kling,
  Stability, DALL-E 3, Flux, Leonardo, Udio, MusicGen, PlayHT and GPT-4 name methods that
  the class does not define, so reaching one raises \<^verbatim>\<open>AttributeError\<close> before anything is
  sent. The parameters are the values after Python has bound the call's arguments and
  defaults; the parameter \<^verbatim>\<open>provider\<close> is written \<open>prov\<close>.
\<close>

definition not_configured :: "pylib \<Rightarrow> pyval \<Rightarrow> error" where
  "not_configured lib prov =
     ValueError (''Provider '' @ py_format lib prov @ '' not configured'')"

definition not_implemented :: "pylib \<Rightarrow> pyval \<Rightarrow> error" where
  "not_implemented lib prov =
     NotImplementedError (''Provider '' @ py_format lib prov @ '' not implemented'')"

definition generate_video ::
  "manager \<Rightarrow> pylib \<Rightarrow> pyval \<Rightarrow> pyval \<Rightarrow> pyval \<Rightarrow> pyval \<Rightarrow> pyval \<Rightarrow> (string \<times> pyval) list
     \<Rightarrow> event list \<Rightarrow> ((error + pyval) \<times> event list) option" where
  "generate_video self lib prompt prov img duration resolution kwargs log =
     (case configs_get (configs self) prov of
        Inl err \<Rightarrow> Some (Inl err, log)
      | Inr None \<Rightarrow> Some (Inl (not_configured lib prov), log)
      | Inr (Some config) \<Rightarrow>
          if prov = PEnum RUNWAY_GEN3 then
            runway_gen3_video self lib prompt img duration resolution config log
          else if prov = PEnum PIKA_LABS then
            Some (pika_video self lib prompt img duration resolution config log)
          else if prov = PEnum LUMA_DREAM then
            Some (Inl (AttributeError ''_luma_video''), log)
          else if prov = PEnum KLING then
            Some (Inl (AttributeError ''_kling_video''), log)
          else if prov = PEnum STABILITY_VIDEO then
            Some (Inl (AttributeError ''_stability_video''), log)
          else Some (Inl (not_implemented lib prov), log))"

definition generate_image ::
  "manager \<Rightarrow> pylib \<Rightarrow> pyval \<Rightarrow> pyval \<Rightarrow> pyval \<Rightarrow> pyval \<Rightarrow> (string \<times> pyval) list
     \<Rightarrow> event list \<Rightarrow> ((error + pyval) \<times> event list) option" where
  "generate_image self lib prompt prov negative_prompt style kwargs log =
     (case configs_get (configs self) prov of
        Inl err \<Rightarrow> Some (Inl err, log)
      | Inr None \<Rightarrow> Some (Inl (not_configured lib prov), log)
      | Inr (Some config) \<Rightarrow>
          if prov = PEnum MIDJOURNEY then
            (case call_keywords [''prompt'', ''style'', ''config''] (PDict kwargs) of
               Inl err \<Rightarrow> Some (Inl err, log)
             | Inr keywords \<Rightarrow> midjourney_image self lib prompt style config keywords log)
          else if prov = PEnum DALL_E_3 then
            Some (Inl (AttributeError ''_dalle3_image''), log)
          else if prov = PEnum FLUX_PRO then
            Some (Inl (AttributeError ''_flux_image''), log)
          else if prov = PEnum LEONARDO_AI then
            Some (Inl (AttributeError ''_leonardo_image''), log)
          else Some (Inl (not_implemented lib prov), log))"

definition generate_music ::
  "manager \<Rightarrow> pylib \<Rightarrow> pyval \<Rightarrow> pyval \<Rightarrow> pyval \<Rightarrow> pyval \<Rightarrow> (string \<times> pyval) list
     \<Rightarrow> event list \<Rightarrow> ((error + pyval) \<times> event list) option" where
  "generate_music self lib prompt prov duration genre kwargs log =
     (case configs_get (configs self) prov of
        Inl err \<Rightarrow> Some (Inl err, log)
      | Inr None \<Rightarrow> Some (Inl (not_configured lib prov), log)
      | Inr (Some config) \<Rightarrow>
          if prov = PEnum SUNO_AI then
            (case call_keywords [''prompt'', ''duration'', ''genre'', ''config''] (PDict kwargs) of
               Inl err \<Rightarrow> Some (Inl err, log)
             | Inr keywords \<Rightarrow>
                 Some (suno_music self prompt duration genre config keywords log))
          else if prov = PEnum UDIO then
            Some (Inl (AttributeError ''_udio_music''), log)
          else if prov = PEnum MUSICGEN then
            Some (Inl (AttributeError ''_musicgen_music''), log)
          else Some (Inl (not_implemented lib prov), log))"

definition generate_voice ::
  "manager \<Rightarrow> pylib \<Rightarrow> pyval \<Rightarrow> pyval \<Rightarrow> pyval \<Rightarrow> (string \<times> pyval) list
     \<Rightarrow> event list \<Rightarrow> ((error + pyval) \<times> event list) option" where
  "generate_voice self lib spoken_text prov voice_id kwargs log =
     (case configs_get (configs self) prov of
        Inl err \<Rightarrow> Some (Inl err, log)
      | Inr None \<Rightarrow> Some (Inl (not_configured lib prov), log)
      | Inr (Some config) \<Rightarrow>
          if prov = PEnum ELEVENLABS then
            (case call_keywords [''text'', ''voice_id'', ''config''] (PDict kwargs) of
               Inl err \<Rightarrow> Some (Inl err, log)
             | Inr keywords \<Rightarrow>
                 Some (elevenlabs_voice self lib spoken_text voice_id config keywords log))
          else if prov = PEnum PLAY_HT then
            Some (Inl (AttributeError ''_playht_voice''), log)
          else Some (Inl (not_implemented lib prov), log))"

definition generate_script ::
  "manager \<Rightarrow> pylib \<Rightarrow> pyval \<Rightarrow> pyval \<Rightarrow> pyval \<Rightarrow> (string \<times> pyval) list
     \<Rightarrow> event list \<Rightarrow> ((error + pyval) \<times> event list) option" where
  "generate_script self lib prompt prov max_tokens kwargs log =
     (case configs_get (configs self) prov of
        Inl err \<Rightarrow> Some (Inl err, log)
      | Inr None \<Rightarrow> Some (Inl (not_configured lib prov), log)
      | Inr (Some config) \<Rightarrow>
          if prov = PEnum CLAUDE_3_OPUS then
            (case call_keywords [''prompt'', ''max_tokens'', ''config''] (PDict kwargs) of
               Inl err \<Rightarrow> Some (Inl err, log)
             | Inr keywords \<Rightarrow>
                 Some (claude_script self prompt max_tokens config keywords log))
          else if prov = PEnum GPT_4_TURBO then
            Some (Inl (AttributeError ''_gpt4_script''), log)
          else Some (Inl (not_implemented lib prov), log))"

section \<open>Batch processing\<close>

text \<open>\<^verbatim>\<open>_process_task\<close>; a task is a dictionary.\<close>

definition process_task ::
  "manager \<Rightarrow> pylib \<Rightarrow> (string \<times> pyval) list \<Rightarrow> event list
     \<Rightarrow> ((error + pyval) \<times> event list) option" where
  "process_task self lib task log =
     (let task_type = dict_get task ''type'';
          prov = dict_get task ''provider'';
          params = dict_get_default task ''params'' (PDict [])
      in if task_type = PStr ''video'' then
           (case subscript (PDict task) ''prompt'' of
              Inl err \<Rightarrow> Some (Inl err, log)
            | Inr prompt \<Rightarrow>
                (case call_keywords [''prompt'', ''provider''] params of
                   Inl err \<Rightarrow> Some (Inl err, log)
                 | Inr d \<Rightarrow>
                     generate_video self lib prompt prov
                       (dict_get_default d ''image'' PNone)
                       (dict_get_default d ''duration'' (PInt 5))
                       (dict_get_default d ''resolution'' (PStr ''1280x720''))
                       (keywords_only [''image'', ''duration'', ''resolution''] d) log))
         else if task_type = PStr ''image'' then
           (case subscript (PDict task) ''prompt'' of
              Inl err \<Rightarrow> Some (Inl err, log)
            | Inr prompt \<Rightarrow>
                (case call_keywords [''prompt'', ''provider''] params of
                   Inl err \<Rightarrow> Some (Inl err, log)
                 | Inr d \<Rightarrow>
                     generate_image self lib prompt prov
                       (dict_get_default d ''negative_prompt'' PNone)
                       (dict_get_default d ''style'' PNone)
                       (keywords_only [''negative_prompt'', ''style''] d) log))
         else if task_type = PStr ''music'' then
           (case subscript (PDict task) ''prompt'' of
              Inl err \<Rightarrow> Some (Inl err, log)
            | Inr prompt \<Rightarrow>
                (case call_keywords [''prompt'', ''provider''] params of
                   Inl err \<Rightarrow> Some (Inl err, log)
                 | Inr d \<Rightarrow>
                     generate_music self lib prompt prov
                       (dict_get_default d ''duration'' (PInt 60))
                       (dict_get_default d ''genre'' PNone)
                       (keywords_only [''duration'', ''genre''] d) log))
         else if task_type = PStr ''voice'' then
           (case subscript (PDict task) ''text'' of
              Inl err \<Rightarrow> Some (Inl err, log)
            | Inr spoken_text \<Rightarrow>
                (case call_keywords [''text'', ''provider''] params of
                   Inl err \<Rightarrow> Some (Inl err, log)
                 | Inr d \<Rightarrow>
                     generate_voice self lib spoken_text prov
                       (dict_get_default d ''voice_id'' PNone)
                       (keywords_only [''voice_id''] d) log))
         else if task_type = PStr ''script'' then
           (case subscript (PDict task) ''prompt'' of
              Inl err \<Rightarrow> Some (Inl err, log)
            | Inr prompt \<Rightarrow>
                (case call_keywords [''prompt'', ''provider''] params of
                   Inl err \<Rightarrow> Some (Inl err, log)
                 | Inr d \<Rightarrow>
                     generate_script self lib prompt prov
                       (dict_get_default d ''max_tokens'' (PInt 4000))
                       (keywords_only [''max_tokens''] d) log))
         else Some (Inl (ValueError (''Unknown task type: '' @ py_format lib task_type)), log))"

text \<open>
  \<^verbatim>\<open>batch_process\<close>. The sequential branch is the loop that appends each result to
  \<^verbatim>\<open>results\<close>; an exception leaves the loop and the function. The parallel branch hands one
  coroutine per task, in the order of the tasks, to \<^verbatim>\<open>asyncio.gather\<close>, which belongs to
  the Python library and is a parameter here: how it interleaves the coroutines is not
  part of this model.
\<close>

fun batch_loop ::
  "manager \<Rightarrow> pylib \<Rightarrow> (string \<times> pyval) list list \<Rightarrow> pyval list \<Rightarrow> event list
     \<Rightarrow> ((error + pyval list) \<times> event list) option" where
  "batch_loop self lib [] results log = Some (Inr results, log)"
| "batch_loop self lib (task # tasks) results log =
     (case process_task self lib task log of
        None \<Rightarrow> None
      | Some (Inl err, log1) \<Rightarrow> Some (Inl err, log1)
      | Some (Inr result, log1) \<Rightarrow> batch_loop self lib tasks (results @ [result]) log1)"

type_synonym coroutine = "event list \<Rightarrow> ((error + pyval) \<times> event list) option"

definition batch_process ::
  "manager \<Rightarrow> pylib \<Rightarrow> (coroutine list \<Rightarrow> event list \<Rightarrow> ((error + pyval list) \<times> event list) option)
     \<Rightarrow> (string \<times> pyval) list list \<Rightarrow> bool \<Rightarrow> event list
     \<Rightarrow> ((error + pyval list) \<times> event list) option" where
  "batch_process self lib gather tasks parallel log =
     (if parallel then gather (map (process_task self lib) tasks) log
      else batch_loop self lib tasks [] log)"

text \<open>
  Modelled from the spec: \<^verbatim>\<open>asyncio.gather\<close>, which \<^verbatim>\<open>batch_process\<close> calls in parallel
  mode and which is not under the source directory. The specification's words: all tasks
  are dispatched concurrently; the call completes when all finish; if any task fails the call
  fails, surfacing the first failure observed; the result order matches the order of the
  tasks, not the order of completion. In the model the coroutines complete in the order
  \<open>order\<close>, a list of positions, each running on the log that the ones completed before it
  left. The result of a coroutine is stored in the slot of its position; the first coroutine
  to raise ends the call with its exception; when every slot is filled the slots are returned
  in position order, and while a slot is empty the call has not completed.
\<close>

fun gather_slots ::
  "coroutine list \<Rightarrow> nat list \<Rightarrow> (nat \<Rightarrow> pyval option) \<Rightarrow> event list
     \<Rightarrow> ((error + (nat \<Rightarrow> pyval option)) \<times> event list) option" where
  "gather_slots coroutines [] slots log = Some (Inr slots, log)"
| "gather_slots coroutines (i # order) slots log =
     (if i < length coroutines then
        (case (coroutines ! i) log of
           None \<Rightarrow> None
         | Some (Inl err, log1) \<Rightarrow> Some (Inl err, log1)
         | Some (Inr result, log1) \<Rightarrow>
             gather_slots coroutines order (slots(i := Some result)) log1)
      else gather_slots coroutines order slots log)"

text \<open>
  Modelled from the spec: the call \<^verbatim>\<open>asyncio.gather(*coroutines)\<close> itself, which starts
  with every slot empty.
\<close>

definition gather ::
  "nat list \<Rightarrow> coroutine list \<Rightarrow> event list \<Rightarrow> ((error + pyval list) \<times> event list) option" where
  "gather order coroutines log =
     (case gather_slots coroutines order (\<lambda>i. None) log of
        None \<Rightarrow> None
      | Some (Inl err, log1) \<Rightarrow> Some (Inl err, log1)
      | Some (Inr slots, log1) \<Rightarrow>
          (case those (map slots [0..<length coroutines]) of
             None \<Rightarrow> None
           | Some results \<Rightarrow> Some (Inr results, log1)))"

section \<open>Observing a polling loop\<close>

text \<open>
  Two notions for stating what a polling loop does. \<open>reported_status s log request\<close> is
  the status that the vendor behind the session \<open>s\<close> reports to the status check \<open>request\<close>
  made when the events so far are \<open>log\<close>. \<open>waited request pause n\<close> is what \<open>n\<close> fruitless
  status checks add to the log: each time the request, then the sleep.
\<close>

definition reported_status :: "session \<Rightarrow> event list \<Rightarrow> event \<Rightarrow> error + pyval" where
  "reported_status s log request =
     (case s log request of
        Inl err \<Rightarrow> Inl err
      | Inr status_response \<Rightarrow>
          (case json status_response of
             Inl err \<Rightarrow> Inl err
           | Inr status_data \<Rightarrow> subscript status_data ''status''))"

fun waited :: "event \<Rightarrow> nat \<Rightarrow> nat \<Rightarrow> event list" where
  "waited request pause 0 = []"
| "waited request pause (Suc n) = request # Sleep pause # waited request pause n"

section \<open>Fake vendors for the examples\<close>

text \<open>
  The closed examples below run the manager against a fake vendor. \<open>constant_vendor\<close>
  answers every POST with the JSON value \<open>submitted\<close> and every GET with the JSON value
  \<open>status_data\<close>; \<open>scripted_vendor\<close> answers its \<open>n\<close>-th GET with the \<open>n\<close>-th value of a
  list and has no answer after the last. \<open>stub_lib\<close> stands for the library functions in
  examples that neither format a float or a container nor encode an image, and
  \<open>stub_gather\<close> for \<^verbatim>\<open>asyncio.gather\<close> in examples of the sequential branch, which never calls
  it.
\<close>

definition constant_vendor :: "pyval \<Rightarrow> pyval \<Rightarrow> session" where
  "constant_vendor submitted status_data log request =
     (case request of
        Post url headers data \<Rightarrow> Inr \<lparr>json = Inr submitted, read = Inr []\<rparr>
      | Get url headers \<Rightarrow> Inr \<lparr>json = Inr status_data, read = Inr []\<rparr>
      | _ \<Rightarrow> Inl (ClientError ''not a request''))"

fun is_get :: "event \<Rightarrow> bool" where
  "is_get (Get url headers) = True"
| "is_get _ = False"

definition scripted_vendor :: "pyval \<Rightarrow> pyval list \<Rightarrow> session" where
  "scripted_vendor submitted answers log request =
     (case request of
        Post url headers data \<Rightarrow> Inr \<lparr>json = Inr submitted, read = Inr []\<rparr>
      | Get url headers \<Rightarrow>
          (case drop (length (filter is_get log)) answers of
             [] \<Rightarrow> Inl (ClientError ''no more answers'')
           | status_data # _ \<Rightarrow> Inr \<lparr>json = Inr status_data, read = Inr []\<rparr>)
      | _ \<Rightarrow> Inl (ClientError ''not a request''))"

definition stub_lib :: pylib where
  "stub_lib = \<lparr>format_other = (\<lambda>v. ''?''), b64encode = (\<lambda>b. b)\<rparr>"


section \<open>Properties of the registry\<close>

text \<open>
  C9, as the specification states it (every identifier of the enumeration has a config),
  fails: \<^verbatim>\<open>load_api_configs\<close> assigns no config to \<^verbatim>\<open>AIProvider.STABILITY_VIDEO\<close>.
\<close>

theorem registry_lacks_stability_video:
  "configs (init no_environ) STABILITY_VIDEO = None"
  by (simp add: init_def load_api_configs_def)

text \<open>
  C9, amended: the registry built at initialization holds a config for exactly sixteen of
  the enumeration's identifiers. For each of these the lookup returns one config, whose
  \<^verbatim>\<open>provider\<close> field is that identifier, with a non-empty endpoint URL and a non-empty
  capability list; for every other identifier of the enumeration the lookup finds nothing.
\<close>

theorem registry_configured_providers:
  "(p \<in> {RUNWAY_GEN3, PIKA_LABS, LUMA_DREAM, KLING, MIDJOURNEY, DALL_E_3, FLUX_PRO,
          LEONARDO_AI, SUNO_AI, UDIO, ELEVENLABS, CLAUDE_3_OPUS, GPT_4_TURBO,
          WONDER_DYNAMICS, HEYGEN, TOPAZ_VIDEO_AI} \<longrightarrow>
      (\<exists>c. configs (init environ) p = Some c \<and> provider c = p \<and> endpoint c \<noteq> []
           \<and> capabilities c \<noteq> []))
   \<and> (p \<notin> {RUNWAY_GEN3, PIKA_LABS, LUMA_DREAM, KLING, MIDJOURNEY, DALL_E_3, FLUX_PRO,
          LEONARDO_AI, SUNO_AI, UDIO, ELEVENLABS, CLAUDE_3_OPUS, GPT_4_TURBO,
          WONDER_DYNAMICS, HEYGEN, TOPAZ_VIDEO_AI} \<longrightarrow>
      configs (init environ) p = None)"
  by (cases p) (simp_all add: init_def load_api_configs_def)

theorem registry_configured_providers_witness:
  "(\<exists>c. configs (init no_environ) ELEVENLABS = Some c \<and> provider c = ELEVENLABS
        \<and> endpoint c \<noteq> [] \<and> capabilities c \<noteq> [])
   \<and> configs (init no_environ) MOONVALLEY = None"
  using registry_configured_providers [of ELEVENLABS no_environ]
    registry_configured_providers [of MOONVALLEY no_environ]
  by simp

section \<open>Properties of the cost estimate\<close>

lemma estimate_cost_loop_skip:
  "configs_get (configs self) (dict_get u ''provider'') = Inr None \<Longrightarrow>
   estimate_cost_loop self t (pre @ u # post) = estimate_cost_loop self t (pre @ post)"
  by (induction pre arbitrary: t) (auto split: sum.splits option.splits)

lemma float_of_int_1: "float_of_int 1 = Inr (Finite 1 0)"
  by code_simp

lemma round_scaled_1: "round_scaled 1 0 = Finite 1 0"
  by code_simp

lemma registry_costs:
  "configs (init environ) p = Some c \<Longrightarrow>
   cost_per_request c \<in> {float_lit 5 2, float_lit 4 2, float_lit 3 2, float_lit 2 2,
     float_lit 1 2, float_lit 5 3, float_lit 8 2, float_lit 6 2, float_lit 15 3, float_lit 1 1}"
  by (cases p) (auto simp: init_def load_api_configs_def)

lemma times_one:
  assumes "x \<in> {float_lit 5 2, float_lit 4 2, float_lit 3 2, float_lit 2 2,
     float_lit 1 2, float_lit 5 3, float_lit 8 2, float_lit 6 2, float_lit 15 3, float_lit 1 1}"
  shows "fmul x (Finite 1 0) = x"
proof -
  have "fmul (float_lit 5 2) (Finite 1 0) = float_lit 5 2" by code_simp
  moreover have "fmul (float_lit 4 2) (Finite 1 0) = float_lit 4 2" by code_simp
  moreover have "fmul (float_lit 3 2) (Finite 1 0) = float_lit 3 2" by code_simp
  moreover have "fmul (float_lit 2 2) (Finite 1 0) = float_lit 2 2" by code_simp
  moreover have "fmul (float_lit 1 2) (Finite 1 0) = float_lit 1 2" by code_simp
  moreover have "fmul (float_lit 5 3) (Finite 1 0) = float_lit 5 3" by code_simp
  moreover have "fmul (float_lit 8 2) (Finite 1 0) = float_lit 8 2" by code_simp
  moreover have "fmul (float_lit 6 2) (Finite 1 0) = float_lit 6 2" by code_simp
  moreover have "fmul (float_lit 15 3) (Finite 1 0) = float_lit 15 3" by code_simp
  moreover have "fmul (float_lit 1 1) (Finite 1 0) = float_lit 1 1" by code_simp
  ultimately show ?thesis using assms by auto
qed

lemma estimate_cost_loop_planned:
  "\<forall>step \<in> set workflow. hashable (dict_get step ''provider'') \<and> countable step \<Longrightarrow>
   estimate_cost_loop self t workflow =
   Inr (foldl (\<lambda>total (config, n).
                 fadd total (fmul (cost_per_request config) (round_scaled n 0)))
          t (known_pairs self (map planned workflow)))"
proof (induction workflow arbitrary: t)
  case Nil
  then show ?case by simp
next
  case (Cons step workflow)
  from Cons.prems have h: "hashable (dict_get step ''provider'')" and c: "countable step"
    by auto
  from h have "\<exists>r. configs_get (configs self) (dict_get step ''provider'') = Inr r"
    by (cases "dict_get step ''provider''") auto
  then obtain r where r: "configs_get (configs self) (dict_get step ''provider'') = Inr r" ..
  from c have m: "py_float_mul x (dict_get_default step ''count'' (PInt 1)) =
      Inr (fmul x (round_scaled (snd (planned step)) 0))" for x
    by (auto simp: countable_def planned_def dict_get_default_def float_of_int_1 round_scaled_1
        float_of_int_def split: option.splits pyval.splits double.splits)
  have p: "fst (planned step) = dict_get step ''provider''"
    by (simp add: planned_def)
  obtain ident n where pl: "planned step = (ident, n)" by (cases "planned step")
  show ?case using Cons r m p pl
    by (cases r) auto
qed

lemma known_pairs_append:
  "known_pairs self (xs @ ys) = known_pairs self xs @ known_pairs self ys"
  by (induction xs) (auto split: sum.splits option.splits)


lemma dict_get_append_other:
  "k \<noteq> k' \<Longrightarrow> dict_get (d @ [(k', v)]) k = dict_get d k"
  by (simp add: dict_get_def map_add_def split: option.splits)

lemma dict_get_default_append_new:
  "map_of d k = None \<Longrightarrow> dict_get_default (d @ [(k, v)]) k dflt = v"
  by (simp add: dict_get_default_def map_add_def split: option.splits)

lemma estimate_cost_loop_default_count:
  "map_of step ''count'' = None \<Longrightarrow>
   estimate_cost_loop self t (pre @ step # post) =
   estimate_cost_loop self t (pre @ (step @ [(''count'', PInt 1)]) # post)"
proof (induction pre arbitrary: t)
  case Nil
  have "dict_get (step @ [(''count'', PInt 1)]) ''provider'' = dict_get step ''provider''"
    by (rule dict_get_append_other) simp
  moreover have "dict_get_default (step @ [(''count'', PInt 1)]) ''count'' (PInt 1) = PInt 1"
    using Nil by (rule dict_get_default_append_new)
  moreover have "dict_get_default step ''count'' (PInt 1) = PInt 1"
    using Nil by (simp add: dict_get_default_def)
  ultimately show ?case by (simp split: sum.splits option.splits)
next
  case (Cons a pre)
  then show ?case by (simp split: sum.splits option.splits)
qed

lemma unit_cost:
  assumes "x \<in> {float_lit 5 2, float_lit 4 2, float_lit 3 2, float_lit 2 2,
     float_lit 1 2, float_lit 5 3, float_lit 8 2, float_lit 6 2, float_lit 15 3, float_lit 1 1}"
  shows "fadd (Finite 0 0) x = x"
proof -
  have "fadd (Finite 0 0) (float_lit 5 2) = float_lit 5 2" by code_simp
  moreover have "fadd (Finite 0 0) (float_lit 4 2) = float_lit 4 2" by code_simp
  moreover have "fadd (Finite 0 0) (float_lit 3 2) = float_lit 3 2" by code_simp
  moreover have "fadd (Finite 0 0) (float_lit 2 2) = float_lit 2 2" by code_simp
  moreover have "fadd (Finite 0 0) (float_lit 1 2) = float_lit 1 2" by code_simp
  moreover have "fadd (Finite 0 0) (float_lit 5 3) = float_lit 5 3" by code_simp
  moreover have "fadd (Finite 0 0) (float_lit 8 2) = float_lit 8 2" by code_simp
  moreover have "fadd (Finite 0 0) (float_lit 6 2) = float_lit 6 2" by code_simp
  moreover have "fadd (Finite 0 0) (float_lit 15 3) = float_lit 15 3" by code_simp
  moreover have "fadd (Finite 0 0) (float_lit 1 1) = float_lit 1 1" by code_simp
  ultimately show ?thesis using assms by auto
qed

lemma estimate_cost_uncounted_last:
  assumes c: "configs (init environ) p = Some c"
    and p: "dict_get step ''provider'' = PEnum p"
    and n: "map_of step ''count'' = None"
    and b: "\<forall>s \<in> set before. hashable (dict_get s ''provider'') \<and> countable s"
  shows "estimate_cost (init environ) (before @ [step]) =
     Inr (fadd (spec_total (known_pairs (init environ) (map planned before)))
            (cost_per_request c))"
proof -
  have "\<forall>s \<in> set (before @ [step]). hashable (dict_get s ''provider'') \<and> countable s"
    using b p n by (simp add: countable_def)
  from estimate_cost_loop_planned [OF this, of "init environ" "Finite 0 0"]
  have "estimate_cost (init environ) (before @ [step]) =
      Inr (spec_total (known_pairs (init environ) (map planned (before @ [step]))))"
    by (simp add: estimate_cost_def spec_total_def)
  moreover have "planned step = (PEnum p, 1)"
    using p n by (simp add: planned_def)
  ultimately show ?thesis
    using c times_one [OF registry_costs [OF c]]
    by (simp add: known_pairs_append spec_total_def round_scaled_1)
qed

text \<open>
  C10: an empty workflow is estimated at exactly \<open>0.0\<close>. A step that carries no \<^verbatim>\<open>count\<close>
  stands for the planned operation with count 1, and the estimate of a workflow is the
  specification's total over the planned operations of its steps, so such a step adds
  \<open>cost_per_request * 1\<close> to the running total wherever it stands; the workflow is estimated
  as if the step carried \<^verbatim>\<open>count\<close> 1. For a provider of the registry that contribution is
  exactly the provider's \<^verbatim>\<open>cost_per_request\<close>: alone the step is estimated at that cost, and
  after other steps at their total plus that cost.
\<close>

theorem estimate_cost_default_count:
  "estimate_cost self [] = Inr (Finite 0 0)
   \<and> ((\<forall>s \<in> set workflow. hashable (dict_get s ''provider'') \<and> countable s) \<longrightarrow>
        estimate_cost self workflow = Inr (spec_total (known_pairs self (map planned workflow))))
   \<and> (map_of step ''count'' = None \<longrightarrow>
        planned step = (dict_get step ''provider'', 1) \<and> countable step)
   \<and> (map_of step ''count'' = None \<longrightarrow>
        estimate_cost self (pre @ step # post) =
        estimate_cost self (pre @ (step @ [(''count'', PInt 1)]) # post))
   \<and> (configs (init environ) p = Some c \<and> dict_get step ''provider'' = PEnum p
        \<and> map_of step ''count'' = None \<longrightarrow>
        estimate_cost (init environ) [step] = Inr (cost_per_request c))
   \<and> (configs (init environ) p = Some c \<and> dict_get step ''provider'' = PEnum p
        \<and> map_of step ''count'' = None
        \<and> (\<forall>s \<in> set before. hashable (dict_get s ''provider'') \<and> countable s) \<longrightarrow>
        estimate_cost (init environ) (before @ [step]) =
        Inr (fadd (spec_total (known_pairs (init environ) (map planned before)))
               (cost_per_request c)))"
proof (intro conjI impI)
  show "estimate_cost self [] = Inr (Finite 0 0)"
    by (simp add: estimate_cost_def)
next
  assume "\<forall>s \<in> set workflow. hashable (dict_get s ''provider'') \<and> countable s"
  from estimate_cost_loop_planned [OF this, of self "Finite 0 0"]
  show "estimate_cost self workflow = Inr (spec_total (known_pairs self (map planned workflow)))"
    by (simp add: estimate_cost_def spec_total_def)
next
  assume "map_of step ''count'' = None"
  then show "planned step = (dict_get step ''provider'', 1)"
    by (simp add: planned_def)
next
  assume "map_of step ''count'' = None"
  then show "countable step"
    by (simp add: countable_def)
next
  assume "map_of step ''count'' = None"
  then show "estimate_cost self (pre @ step # post) =
        estimate_cost self (pre @ (step @ [(''count'', PInt 1)]) # post)"
    unfolding estimate_cost_def by (rule estimate_cost_loop_default_count)
next
  assume a: "configs (init environ) p = Some c \<and> dict_get step ''provider'' = PEnum p
        \<and> map_of step ''count'' = None"
  then have "estimate_cost (init environ) ([] @ [step]) =
     Inr (fadd (spec_total (known_pairs (init environ) (map planned [])))
            (cost_per_request c))"
    by (intro estimate_cost_uncounted_last) simp_all
  then show "estimate_cost (init environ) [step] = Inr (cost_per_request c)"
    using a unit_cost [OF registry_costs [of environ p c]]
    by (simp add: spec_total_def)
next
  assume "configs (init environ) p = Some c \<and> dict_get step ''provider'' = PEnum p
        \<and> map_of step ''count'' = None
        \<and> (\<forall>s \<in> set before. hashable (dict_get s ''provider'') \<and> countable s)"
  then show "estimate_cost (init environ) (before @ [step]) =
        Inr (fadd (spec_total (known_pairs (init environ) (map planned before)))
               (cost_per_request c))"
    by (intro estimate_cost_uncounted_last) simp_all
qed

lemma example_uncounted_sum:
  "fadd (fadd (Finite 0 0) (fmul (float_lit 2 2) (round_scaled 2 0))) (float_lit 8 2) =
   float_lit 12 2"
  by code_simp

theorem estimate_cost_default_count_witness:
  "estimate_cost (init no_environ)
     [[(''provider'', PEnum KLING), (''count'', PInt 2)], [(''provider'', PEnum SUNO_AI)]] =
   Inr (float_lit 12 2)
   \<and> estimate_cost (init no_environ) [[(''provider'', PEnum SUNO_AI)]] = Inr (float_lit 8 2)
   \<and> estimate_cost (init no_environ)
        [[(''provider'', PEnum KLING), (''count'', PInt 2)], [(''provider'', PEnum SUNO_AI)]] =
      estimate_cost (init no_environ)
        [[(''provider'', PEnum KLING), (''count'', PInt 2)],
         [(''provider'', PEnum SUNO_AI), (''count'', PInt 1)]]"
proof -
  let ?kling = "[(''provider'', PEnum KLING), (''count'', PInt 2)]"
  let ?suno = "[(''provider'', PEnum SUNO_AI)]"
  let ?config = "the (configs (init no_environ) SUNO_AI)"
  have c: "configs (init no_environ) SUNO_AI = Some ?config"
    by (simp add: init_def load_api_configs_def)
  have k: "cost_per_request ?config = float_lit 8 2"
    by (simp add: init_def load_api_configs_def)
  have p: "dict_get ?suno ''provider'' = PEnum SUNO_AI"
    by (simp add: dict_get_def)
  have n: "map_of ?suno ''count'' = None"
    by simp
  have f2: "float_of_int 2 \<noteq> Inl OverflowError"
    by code_simp
  have b: "\<forall>s \<in> set [?kling]. hashable (dict_get s ''provider'') \<and> countable s"
    using f2 by (simp add: dict_get_def countable_def)
  have t: "spec_total (known_pairs (init no_environ) (map planned [?kling])) =
      fadd (Finite 0 0) (fmul (float_lit 2 2) (round_scaled 2 0))"
    by (simp add: spec_total_def planned_def dict_get_def init_def load_api_configs_def)
  note w = estimate_cost_default_count [where self = "init no_environ" and step = ?suno
        and pre = "[?kling]" and post = "[]" and environ = no_environ and p = SUNO_AI
        and c = ?config and before = "[?kling]" and workflow = "[?kling, ?suno]"]
  from w c p n b have "estimate_cost (init no_environ) ([?kling] @ [?suno]) =
      Inr (fadd (spec_total (known_pairs (init no_environ) (map planned [?kling])))
             (cost_per_request ?config))"
    by blast
  then have 1: "estimate_cost (init no_environ) [?kling, ?suno] = Inr (float_lit 12 2)"
    by (simp only: t k example_uncounted_sum append_Cons append_Nil)
  from w c p n have 2: "estimate_cost (init no_environ) [?suno] = Inr (float_lit 8 2)"
    using k by simp
  from w n have 3: "estimate_cost (init no_environ) ([?kling] @ ?suno # []) =
      estimate_cost (init no_environ) ([?kling] @ (?suno @ [(''count'', PInt 1)]) # [])"
    by blast
  from 1 2 3 show ?thesis by simp
qed

lemma estimate_cost_loop_spec:
  "\<forall>(ident, n) \<in> set ops. hashable ident \<and> float_of_int n \<noteq> Inl OverflowError \<Longrightarrow>
   estimate_cost_loop self t (map step_of ops) =
   Inr (foldl (\<lambda>total (config, n).
                 fadd total (fmul (cost_per_request config) (round_scaled n 0)))
          t (known_pairs self ops))"
proof (induction ops arbitrary: t)
  case Nil
  then show ?case by simp
next
  case (Cons a ops)
  obtain ident n where a: "a = (ident, n)" by (cases a)
  from Cons.prems a have h: "hashable ident" and f: "float_of_int n \<noteq> Inl OverflowError"
    by auto
  from f have fl: "float_of_int n = Inr (round_scaled n 0)"
    by (auto simp: float_of_int_def split: double.splits)
  from h have "\<exists>r. configs_get (configs self) ident = Inr r"
    by (cases ident) auto
  then obtain r where r: "configs_get (configs self) ident = Inr r" by blast
  show ?case using Cons a r fl
    by (cases r) (auto simp: step_of_def dict_get_def dict_get_default_def)
qed

lemma estimate_cost_example:
  "estimate_cost (init environ) [step_of (PEnum RUNWAY_GEN3, 3), step_of (PEnum KLING, 2)] =
   Inr (fadd (fadd (Finite 0 0) (fmul (float_lit 5 2) (round_scaled 3 0)))
          (fmul (float_lit 2 2) (round_scaled 2 0)))"
proof -
  have "float_of_int 3 = Inr (round_scaled 3 0)" "float_of_int 2 = Inr (round_scaled 2 0)"
    by code_simp+
  then show ?thesis
    by (simp add: estimate_cost_def step_of_def dict_get_def dict_get_default_def init_def
        load_api_configs_def)
qed

lemma example_sum:
  "fadd (fadd (Finite 0 0) (fmul (float_lit 5 2) (round_scaled 3 0)))
          (fmul (float_lit 2 2) (round_scaled 2 0)) = float_lit 19000000000000003 17"
  by code_simp

lemma example_sum_not_19:
  "float_lit 19000000000000003 17 \<noteq> float_lit 19 2"
  by code_simp

text \<open>
  C6, as the specification states it, fails on its example: three requests at \<^verbatim>\<open>0.05\<close>
  and two at \<^verbatim>\<open>0.02\<close> are not estimated at the float \<^verbatim>\<open>0.19\<close>.
\<close>

theorem estimate_cost_example_not_19:
  "estimate_cost (init no_environ)
     [step_of (PEnum RUNWAY_GEN3, 3), step_of (PEnum KLING, 2)] \<noteq> Inr (float_lit 19 2)"
  by (simp add: estimate_cost_example example_sum example_sum_not_19)

text \<open>
  C6, amended: over an ordered sequence of (identifier, count) pairs with integer counts
  that fit a float, the estimate is the total, accumulated in float arithmetic from \<open>0.0\<close> in
  the order of the sequence, of \<open>cost_per_request * count\<close> over exactly the pairs whose
  identifier is a key of the registry; a step whose identifier is not a key is skipped without
  an error whatever its count, so the estimate equals the one without that step; and three
  requests at \<^verbatim>\<open>0.05\<close> plus two at \<^verbatim>\<open>0.02\<close> are estimated at the float
  \<^verbatim>\<open>0.19000000000000003\<close>, the float next above \<^verbatim>\<open>0.19\<close>.
\<close>

theorem estimate_cost_sums_known_pairs:
  "((\<forall>(ident, n) \<in> set ops. hashable ident \<and> float_of_int n \<noteq> Inl OverflowError) \<longrightarrow>
      estimate_cost self (map step_of ops) = Inr (spec_total (known_pairs self ops)))
   \<and> (configs_get (configs self) (dict_get u ''provider'') = Inr None \<longrightarrow>
        estimate_cost self (pre @ u # post) = estimate_cost self (pre @ post))
   \<and> estimate_cost (init environ) [step_of (PEnum RUNWAY_GEN3, 3), step_of (PEnum KLING, 2)] =
       Inr (float_lit 19000000000000003 17)
   \<and> fadd (float_lit 19 2) (Finite 1 (- 55)) = float_lit 19000000000000003 17"
proof (intro conjI impI)
  assume "\<forall>(ident, n) \<in> set ops. hashable ident \<and> float_of_int n \<noteq> Inl OverflowError"
  then show "estimate_cost self (map step_of ops) = Inr (spec_total (known_pairs self ops))"
    unfolding estimate_cost_def spec_total_def by (rule estimate_cost_loop_spec)
next
  assume "configs_get (configs self) (dict_get u ''provider'') = Inr None"
  then show "estimate_cost self (pre @ u # post) = estimate_cost self (pre @ post)"
    unfolding estimate_cost_def by (rule estimate_cost_loop_skip)
next
  show "estimate_cost (init environ) [step_of (PEnum RUNWAY_GEN3, 3), step_of (PEnum KLING, 2)] =
       Inr (float_lit 19000000000000003 17)"
    by (simp only: estimate_cost_example example_sum)
next
  show "fadd (float_lit 19 2) (Finite 1 (- 55)) = float_lit 19000000000000003 17"
    by code_simp
qed

theorem estimate_cost_sums_known_pairs_witness:
  "estimate_cost (init no_environ)
     (map step_of [(PEnum HEYGEN, 3), (PStr ''nobody'', 100), (PEnum MIDJOURNEY, 2)]) =
   Inr (float_lit 19000000000000003 17)
   \<and> estimate_cost (init no_environ)
       ([] @ [(''provider'', PEnum MOONVALLEY), (''count'', PStr ''many'')]
          # [step_of (PEnum HEYGEN, 3)]) =
     estimate_cost (init no_environ) ([] @ [step_of (PEnum HEYGEN, 3)])"
proof -
  have f: "float_of_int 3 \<noteq> Inl OverflowError" "float_of_int 100 \<noteq> Inl OverflowError"
    "float_of_int 2 \<noteq> Inl OverflowError"
    by code_simp+
  have k: "known_pairs (init no_environ)
      [(PEnum HEYGEN, 3), (PStr ''nobody'', 100), (PEnum MIDJOURNEY, 2)] =
      [(the (configs (init no_environ) HEYGEN), 3), (the (configs (init no_environ) MIDJOURNEY), 2)]"
    by (simp add: init_def load_api_configs_def)
  have c: "cost_per_request (the (configs (init no_environ) HEYGEN)) = float_lit 5 2"
    "cost_per_request (the (configs (init no_environ) MIDJOURNEY)) = float_lit 2 2"
    by (simp_all add: init_def load_api_configs_def)
  have u: "configs_get (configs (init no_environ))
     (dict_get [(''provider'', PEnum MOONVALLEY), (''count'', PStr ''many'')] ''provider'') = Inr None"
    by (simp add: dict_get_def init_def load_api_configs_def)
  show ?thesis
    using estimate_cost_sums_known_pairs [of
        "[(PEnum HEYGEN, 3), (PStr ''nobody'', 100), (PEnum MIDJOURNEY, 2)]" "init no_environ"
        "[(''provider'', PEnum MOONVALLEY), (''count'', PStr ''many'')]" "[]"
        "[step_of (PEnum HEYGEN, 3)]" no_environ] f u
    by (simp only: k) (simp add: c spec_total_def example_sum)
qed

section \<open>Properties of the entry points\<close>

text \<open>
  C2: when the provider is not a key of \<^verbatim>\<open>self.configs\<close>, each of the five entry points
  raises the \<^verbatim>\<open>ValueError\<close> "Provider ... not configured" and nothing else, and the log of
  requests is as it was: no adapter has run and no HTTP call was made.
\<close>

theorem unknown_provider_rejected:
  "configs_get (configs self) prov = Inr None \<Longrightarrow>
   generate_video self lib prompt prov img duration resolution kwargs log =
     Some (Inl (ValueError (''Provider '' @ py_format lib prov @ '' not configured'')), log)
   \<and> generate_image self lib prompt prov negative_prompt style kwargs log =
     Some (Inl (ValueError (''Provider '' @ py_format lib prov @ '' not configured'')), log)
   \<and> generate_music self lib prompt prov duration genre kwargs log =
     Some (Inl (ValueError (''Provider '' @ py_format lib prov @ '' not configured'')), log)
   \<and> generate_voice self lib spoken_text prov voice_id kwargs log =
     Some (Inl (ValueError (''Provider '' @ py_format lib prov @ '' not configured'')), log)
   \<and> generate_script self lib prompt prov max_tokens kwargs log =
     Some (Inl (ValueError (''Provider '' @ py_format lib prov @ '' not configured'')), log)"
  by (simp add: generate_video_def generate_image_def generate_music_def generate_voice_def
      generate_script_def not_configured_def)

theorem unknown_provider_rejected_witness:
  "generate_video (init no_environ) stub_lib (PStr ''a cat'') (PEnum STABILITY_VIDEO) PNone
     (PInt 5) (PStr ''1280x720'') [] [] =
     Some (Inl (ValueError ''Provider AIProvider.STABILITY_VIDEO not configured''), [])
   \<and> generate_image (init no_environ) stub_lib (PStr ''a cat'') (PStr ''midjourney'') PNone
     PNone [] [] = Some (Inl (ValueError ''Provider midjourney not configured''), [])
   \<and> generate_music (init no_environ) stub_lib (PStr ''a tune'') (PEnum MUSICGEN) (PInt 60)
     PNone [] [] = Some (Inl (ValueError ''Provider AIProvider.MUSICGEN not configured''), [])
   \<and> generate_voice (init no_environ) stub_lib (PStr ''hello'') (PEnum PLAY_HT) PNone [] [] =
     Some (Inl (ValueError ''Provider AIProvider.PLAY_HT not configured''), [])
   \<and> generate_script (init no_environ) stub_lib (PStr ''a scene'') PNone (PInt 4000) [] [] =
     Some (Inl (ValueError ''Provider None not configured''), [])"
proof -
  have 1: "configs_get (configs (init no_environ)) (PEnum STABILITY_VIDEO) = Inr None"
    by (simp add: init_def load_api_configs_def)
  have 2: "configs_get (configs (init no_environ)) (PStr ''midjourney'') = Inr None"
    by simp
  have 3: "configs_get (configs (init no_environ)) (PEnum MUSICGEN) = Inr None"
    by (simp add: init_def load_api_configs_def)
  have 4: "configs_get (configs (init no_environ)) (PEnum PLAY_HT) = Inr None"
    by (simp add: init_def load_api_configs_def)
  have 5: "configs_get (configs (init no_environ)) PNone = Inr None"
    by simp
  show ?thesis
    using unknown_provider_rejected [OF 1, of stub_lib "PStr ''a cat''" PNone "PInt 5" "PStr ''1280x720''" "[]" "[]"]
      unknown_provider_rejected [OF 2, of stub_lib "PStr ''a cat''" _ _ _ "[]" "[]" PNone PNone]
      unknown_provider_rejected [OF 3, of stub_lib "PStr ''a tune''" _ "PInt 60" _ "[]" "[]" _ _ PNone]
      unknown_provider_rejected [OF 4, of stub_lib _ _ _ _ "[]" "[]" _ _ _ "PStr ''hello''" PNone]
      unknown_provider_rejected [OF 5, of stub_lib "PStr ''a scene''" _ _ _ "[]" "[]" _ _ _ _ _ "PInt 4000"]
    by simp
qed

text \<open>
  C3: when the provider has a config but the entry point has no branch for it, the entry
  point raises the \<^verbatim>\<open>NotImplementedError\<close> "Provider ... not implemented", with the log of
  requests as it was; this error is not the \<^verbatim>\<open>ValueError\<close> of an unknown provider.
\<close>

theorem unsupported_provider_rejected:
  "configs (self) p = Some config \<Longrightarrow>
   (p \<notin> {RUNWAY_GEN3, PIKA_LABS, LUMA_DREAM, KLING, STABILITY_VIDEO} \<longrightarrow>
      generate_video self lib prompt (PEnum p) img duration resolution kwargs log =
      Some (Inl (NotImplementedError (''Provider '' @ py_format lib (PEnum p) @ '' not implemented'')), log))
   \<and> (p \<notin> {MIDJOURNEY, DALL_E_3, FLUX_PRO, LEONARDO_AI} \<longrightarrow>
      generate_image self lib prompt (PEnum p) negative_prompt style kwargs log =
      Some (Inl (NotImplementedError (''Provider '' @ py_format lib (PEnum p) @ '' not implemented'')), log))
   \<and> (p \<notin> {SUNO_AI, UDIO, MUSICGEN} \<longrightarrow>
      generate_music self lib prompt (PEnum p) duration genre kwargs log =
      Some (Inl (NotImplementedError (''Provider '' @ py_format lib (PEnum p) @ '' not implemented'')), log))
   \<and> (p \<notin> {ELEVENLABS, PLAY_HT} \<longrightarrow>
      generate_voice self lib spoken_text (PEnum p) voice_id kwargs log =
      Some (Inl (NotImplementedError (''Provider '' @ py_format lib (PEnum p) @ '' not implemented'')), log))
   \<and> (p \<notin> {CLAUDE_3_OPUS, GPT_4_TURBO} \<longrightarrow>
      generate_script self lib prompt (PEnum p) max_tokens kwargs log =
      Some (Inl (NotImplementedError (''Provider '' @ py_format lib (PEnum p) @ '' not implemented'')), log))
   \<and> NotImplementedError (''Provider '' @ py_format lib (PEnum p) @ '' not implemented'')
       \<noteq> ValueError (''Provider '' @ py_format lib (PEnum p) @ '' not configured'')"
  by (simp add: generate_video_def generate_image_def generate_music_def generate_voice_def
      generate_script_def not_implemented_def)

theorem unsupported_provider_rejected_witness:
  "generate_video (init no_environ) stub_lib (PStr ''a cat'') (PEnum MIDJOURNEY) PNone
     (PInt 5) (PStr ''1280x720'') [] [] =
     Some (Inl (NotImplementedError ''Provider AIProvider.MIDJOURNEY not implemented''), [])
   \<and> generate_image (init no_environ) stub_lib (PStr ''a cat'') (PEnum RUNWAY_GEN3) PNone
     PNone [] [] =
     Some (Inl (NotImplementedError ''Provider AIProvider.RUNWAY_GEN3 not implemented''), [])
   \<and> generate_music (init no_environ) stub_lib (PStr ''a tune'') (PEnum MIDJOURNEY) (PInt 60)
     PNone [] [] =
     Some (Inl (NotImplementedError ''Provider AIProvider.MIDJOURNEY not implemented''), [])
   \<and> generate_voice (init no_environ) stub_lib (PStr ''hello'') (PEnum MIDJOURNEY) PNone [] [] =
     Some (Inl (NotImplementedError ''Provider AIProvider.MIDJOURNEY not implemented''), [])
   \<and> generate_script (init no_environ) stub_lib (PStr ''a scene'') (PEnum MIDJOURNEY)
     (PInt 4000) [] [] =
     Some (Inl (NotImplementedError ''Provider AIProvider.MIDJOURNEY not implemented''), [])"
proof -
  have m: "configs (init no_environ) MIDJOURNEY = Some (the (configs (init no_environ) MIDJOURNEY))"
    by (simp add: init_def load_api_configs_def)
  have r: "configs (init no_environ) RUNWAY_GEN3 = Some (the (configs (init no_environ) RUNWAY_GEN3))"
    by (simp add: init_def load_api_configs_def)
  show ?thesis
    using unsupported_provider_rejected [OF m, where lib = stub_lib and log = "[]"
        and kwargs = "[]" and prompt = "PStr ''a cat''" and img = PNone
        and duration = "PInt 5" and resolution = "PStr ''1280x720''" and genre = PNone
        and spoken_text = "PStr ''hello''" and voice_id = PNone and max_tokens = "PInt 4000"]
      unsupported_provider_rejected [OF m, where lib = stub_lib and log = "[]"
        and kwargs = "[]" and prompt = "PStr ''a tune''" and duration = "PInt 60"
        and genre = PNone]
      unsupported_provider_rejected [OF m, where lib = stub_lib and log = "[]"
        and kwargs = "[]" and prompt = "PStr ''a scene''" and max_tokens = "PInt 4000"]
      unsupported_provider_rejected [OF r, where lib = stub_lib and log = "[]"
        and kwargs = "[]" and prompt = "PStr ''a cat''" and negative_prompt = PNone
        and style = PNone]
    by simp
qed

section \<open>Properties of the adapters\<close>

lemma py_min_error: "py_min duration m = Inl err \<Longrightarrow> err = TypeError"
  by (induction duration m rule: py_min.induct) (auto split: if_splits)

text \<open>
  C8 fails on the code. Whatever its arguments, \<^verbatim>\<open>_pika_video\<close> raises while it builds
  the request body, with the log of requests as it was: a \<^verbatim>\<open>TypeError\<close> from the clamp, or
  else the \<^verbatim>\<open>NameError\<close> for \<^verbatim>\<open>kwargs\<close>. Through \<^verbatim>\<open>generate_video\<close> with the registry's
  Pika config and an integer duration it is the \<^verbatim>\<open>NameError\<close>.
\<close>

theorem pika_video_raises:
  "(pika_video self lib prompt img duration resolution config log = (Inl TypeError, log)
      \<or> pika_video self lib prompt img duration resolution config log =
          (Inl (NameError ''kwargs''), log))
   \<and> generate_video (init environ) lib prompt (PEnum PIKA_LABS) img (PInt d) resolution kwargs log =
       Some (Inl (NameError ''kwargs''), log)"
proof
  show "pika_video self lib prompt img duration resolution config log = (Inl TypeError, log)
      \<or> pika_video self lib prompt img duration resolution config log =
          (Inl (NameError ''kwargs''), log)"
    by (auto simp: pika_video_def split: sum.splits dest: py_min_error)
  show "generate_video (init environ) lib prompt (PEnum PIKA_LABS) img (PInt d) resolution kwargs log =
       Some (Inl (NameError ''kwargs''), log)"
    by (simp add: pika_video_def generate_video_def init_def load_api_configs_def)
qed








text \<open>
  With a config that has no maximum duration the clamp itself raises; no entry point hands
  such a config to an adapter that clamps.
\<close>

lemma no_max_duration:
  assumes "max_duration config = None"
  shows "runway_gen3_video self lib prompt img duration resolution config log = Some (Inl TypeError, log)"
    and "suno_music self prompt duration genre config kwargs log = (Inl TypeError, log)"
  using assms
  by (auto simp: runway_gen3_video_def runway_gen3_data_def suno_music_def suno_data_def)






section \<open>Properties of batch processing\<close>




lemma those_map_Some: "those (map Some xs) = Some xs"
  by (induction xs) auto

lemma gather_slots_all_succeed:
  assumes "length rs = length cs"
    and "\<forall>i<length cs. \<forall>log. \<exists>log1. (cs ! i) log = Some (Inr (rs ! i), log1)"
  shows "\<exists>log1. gather_slots cs order slots log =
    Some (Inr (\<lambda>i. if i \<in> set order \<and> i < length cs then Some (rs ! i) else slots i), log1)"
proof (induction order arbitrary: slots log)
  case Nil
  then show ?case by simp
next
  case (Cons i order)
  show ?case
  proof (cases "i < length cs")
    case True
    with assms(2) obtain log1 where r: "(cs ! i) log = Some (Inr (rs ! i), log1)"
      by blast
    from Cons [of "slots(i := Some (rs ! i))" log1] obtain log2 where
      "gather_slots cs order (slots(i := Some (rs ! i))) log1 =
       Some (Inr (\<lambda>j. if j \<in> set order \<and> j < length cs then Some (rs ! j)
                       else (slots(i := Some (rs ! i))) j), log2)"
      ..
    moreover have "(\<lambda>j. if j \<in> set order \<and> j < length cs then Some (rs ! j)
                       else (slots(i := Some (rs ! i))) j) =
       (\<lambda>j. if j \<in> set (i # order) \<and> j < length cs then Some (rs ! j) else slots j)"
      using True by auto
    ultimately show ?thesis using True r by simp
  next
    case False
    from Cons [of slots log] obtain log2 where
      "gather_slots cs order slots log =
       Some (Inr (\<lambda>j. if j \<in> set order \<and> j < length cs then Some (rs ! j) else slots j), log2)"
      ..
    moreover have "(\<lambda>j. if j \<in> set order \<and> j < length cs then Some (rs ! j) else slots j) =
      (\<lambda>j. if j \<in> set (i # order) \<and> j < length cs then Some (rs ! j) else slots j)"
      using False by auto
    ultimately show ?thesis using False by simp
  qed
qed

lemma gather_all_succeed:
  assumes "length rs = length cs"
    and "\<forall>i<length cs. \<forall>log. \<exists>log1. (cs ! i) log = Some (Inr (rs ! i), log1)"
    and "set order = {0..<length cs}"
  shows "\<exists>log1. gather order cs log = Some (Inr rs, log1)"
proof -
  from gather_slots_all_succeed [OF assms(1,2)] obtain log1 where
    g: "gather_slots cs order (\<lambda>i. None) log =
      Some (Inr (\<lambda>i. if i \<in> set order \<and> i < length cs then Some (rs ! i) else None), log1)"
    ..
  have "map (\<lambda>i. if i \<in> set order \<and> i < length cs then Some (rs ! i) else None)
      [0..<length cs] = map Some rs"
    using assms(1,3) by (intro nth_equalityI) simp_all
  then show ?thesis
    using g by (simp add: gather_def those_map_Some)
qed


lemma those_eq_Some: "those xs = Some ys \<Longrightarrow> xs = map Some ys"
  by (induction xs arbitrary: ys) (auto split: option.splits)

lemma gather_slots_results:
  assumes "gather_slots cs order slots log = Some (Inr slots1, log1)"
  shows "slots1 i = slots i \<or>
    (i < length cs \<and> (\<exists>r l l1. slots1 i = Some r \<and> (cs ! i) l = Some (Inr r, l1)))"
  using assms
proof (induction order arbitrary: slots log)
  case Nil
  then show ?case by simp
next
  case (Cons j order)
  show ?case
  proof (cases "j < length cs")
    case False
    with Cons show ?thesis by simp
  next
    case True
    with Cons.prems obtain r l1 where r: "(cs ! j) log = Some (Inr r, l1)"
      and g: "gather_slots cs order (slots(j := Some r)) l1 = Some (Inr slots1, log1)"
      by (auto split: option.splits sum.splits)
    from Cons.IH [OF g] have "slots1 i = (slots(j := Some r)) i \<or>
      (i < length cs \<and> (\<exists>r l l1. slots1 i = Some r \<and> (cs ! i) l = Some (Inr r, l1)))" .
    then show ?thesis
    proof
      assume "slots1 i = (slots(j := Some r)) i"
      then show ?thesis using r True by (cases "i = j") auto
    qed simp
  qed
qed

lemma gather_results:
  assumes "gather order cs log = Some (Inr results, log1)"
  shows "length results = length cs \<and>
    (\<forall>i<length cs. \<exists>l l1. (cs ! i) l = Some (Inr (results ! i), l1))"
proof -
  from assms obtain slots1 where g: "gather_slots cs order (\<lambda>i. None) log = Some (Inr slots1, log1)"
    and t: "those (map slots1 [0..<length cs]) = Some results"
    by (auto simp: gather_def split: option.splits sum.splits)
  from those_eq_Some [OF t] have m: "map slots1 [0..<length cs] = map Some results" .
  then have len: "length results = length cs"
    by (metis length_map length_upt minus_nat.diff_0)
  have "\<exists>l l1. (cs ! i) l = Some (Inr (results ! i), l1)" if "i < length cs" for i
  proof -
    from m that len have "slots1 i = Some (results ! i)"
      by (metis nth_map nth_upt add_0 length_map)
    with gather_slots_results [OF g, of i] show ?thesis by auto
  qed
  with len show ?thesis by blast
qed

text \<open>
  C5: in parallel mode, whatever the order in which the tasks complete (any order that
  completes each of them), when every task succeeds the call returns the list whose entry at
  each position is the result of the task at that position: if task \<open>i\<close> returns
  \<open>results ! i\<close> whenever it runs, the call returns \<open>results\<close>; and whatever the call returns
  has one entry per task, the entry at position \<open>i\<close> being a result that task \<open>i\<close> returned.
\<close>

theorem parallel_batch_keeps_input_order:
  "(set order = {0..<length tasks} \<and> length results = length tasks
      \<and> (\<forall>i<length tasks. \<forall>log. \<exists>log1.
            process_task self lib (tasks ! i) log = Some (Inr (results ! i), log1)) \<longrightarrow>
      (\<exists>log1. batch_process self lib (gather order) tasks True log = Some (Inr results, log1)))
   \<and> (batch_process self lib (gather order) tasks True log = Some (Inr results, log1) \<longrightarrow>
        length results = length tasks
        \<and> (\<forall>i<length tasks. \<exists>l l1.
              process_task self lib (tasks ! i) l = Some (Inr (results ! i), l1)))"
proof (intro conjI impI)
  assume a: "set order = {0..<length tasks} \<and> length results = length tasks
      \<and> (\<forall>i<length tasks. \<forall>log. \<exists>log1.
            process_task self lib (tasks ! i) log = Some (Inr (results ! i), log1))"
  have "\<exists>log1. gather order (map (process_task self lib) tasks) log = Some (Inr results, log1)"
    by (rule gather_all_succeed) (use a in simp_all)
  then show "\<exists>log1. batch_process self lib (gather order) tasks True log =
      Some (Inr results, log1)"
    by (simp add: batch_process_def)
next
  assume "batch_process self lib (gather order) tasks True log = Some (Inr results, log1)"
  then have "gather order (map (process_task self lib) tasks) log = Some (Inr results, log1)"
    by (simp add: batch_process_def)
  from gather_results [OF this]
  show "length results = length tasks"
    and "\<forall>i<length tasks. \<exists>l l1.
              process_task self lib (tasks ! i) l = Some (Inr (results ! i), l1)"
    by simp_all
qed


theorem parallel_batch_keeps_input_order_witness:
  "\<exists>log1. batch_process
     (initialize
        (constant_vendor
           (PDict [(''audio_url'', PStr ''https://cdn/a.mp3''),
                   (''content'', PList [PDict [(''text'', PStr ''INT. LAB'')]])]) PNone)
        (init no_environ))
     stub_lib (gather [2, 0, 1])
     [[(''type'', PStr ''music''), (''provider'', PEnum SUNO_AI), (''prompt'', PStr ''a tune'')],
      [(''type'', PStr ''voice''), (''provider'', PEnum ELEVENLABS), (''text'', PStr ''hello'')],
      [(''type'', PStr ''script''), (''provider'', PEnum CLAUDE_3_OPUS),
       (''prompt'', PStr ''a scene'')]]
     True [] =
   Some (Inr [PDict [(''url'', PStr ''https://cdn/a.mp3''), (''provider'', PStr ''Suno AI''),
                     (''cost'', PFloat (float_lit 8 2)), (''lyrics'', PNone)],
              PDict [(''audio'', PBytes []), (''provider'', PStr ''ElevenLabs''),
                     (''cost'', PFloat (float_lit 1 2))],
              PDict [(''text'', PStr ''INT. LAB''), (''provider'', PStr ''Claude 3 Opus''),
                     (''cost'', PFloat (float_lit 15 3))]], log1)"
proof -
  let ?self = "initialize
        (constant_vendor
           (PDict [(''audio_url'', PStr ''https://cdn/a.mp3''),
                   (''content'', PList [PDict [(''text'', PStr ''INT. LAB'')]])]) PNone)
        (init no_environ)"
  let ?t0 = "[(''type'', PStr ''music''), (''provider'', PEnum SUNO_AI),
     (''prompt'', PStr ''a tune'')]"
  let ?t1 = "[(''type'', PStr ''voice''), (''provider'', PEnum ELEVENLABS),
     (''text'', PStr ''hello'')]"
  let ?t2 = "[(''type'', PStr ''script''), (''provider'', PEnum CLAUDE_3_OPUS),
       (''prompt'', PStr ''a scene'')]"
  let ?r0 = "PDict [(''url'', PStr ''https://cdn/a.mp3''), (''provider'', PStr ''Suno AI''),
                     (''cost'', PFloat (float_lit 8 2)), (''lyrics'', PNone)]"
  let ?r1 = "PDict [(''audio'', PBytes []), (''provider'', PStr ''ElevenLabs''),
                     (''cost'', PFloat (float_lit 1 2))]"
  let ?r2 = "PDict [(''text'', PStr ''INT. LAB''), (''provider'', PStr ''Claude 3 Opus''),
                     (''cost'', PFloat (float_lit 15 3))]"
  have 0: "\<exists>log1. process_task ?self stub_lib ?t0 log = Some (Inr ?r0, log1)" for log
    by (simp add: process_task_def dict_get_def dict_get_default_def call_keywords_def
        keywords_only_def generate_music_def suno_music_def suno_data_def py_or_def
        session_post_def initialize_def init_def load_api_configs_def constant_vendor_def)
  have 1: "\<exists>log1. process_task ?self stub_lib ?t1 log = Some (Inr ?r1, log1)" for log
    by (simp add: process_task_def dict_get_def dict_get_default_def call_keywords_def
        keywords_only_def generate_voice_def elevenlabs_voice_def py_or_def
        session_post_def initialize_def init_def load_api_configs_def constant_vendor_def)
  have 2: "\<exists>log1. process_task ?self stub_lib ?t2 log = Some (Inr ?r2, log1)" for log
    by (simp add: process_task_def dict_get_def dict_get_default_def call_keywords_def
        keywords_only_def generate_script_def claude_script_def
        session_post_def initialize_def init_def load_api_configs_def constant_vendor_def)
  have all: "\<forall>i<length [?t0, ?t1, ?t2]. \<forall>log. \<exists>log1.
      process_task ?self stub_lib ([?t0, ?t1, ?t2] ! i) log = Some (Inr ([?r0, ?r1, ?r2] ! i), log1)"
  proof (intro allI impI)
    fix i :: nat and log
    assume "i < length [?t0, ?t1, ?t2]"
    then have "i = 0 \<or> i = 1 \<or> i = 2" by auto
    then show "\<exists>log1. process_task ?self stub_lib ([?t0, ?t1, ?t2] ! i) log =
        Some (Inr ([?r0, ?r1, ?r2] ! i), log1)"
      using 0 [of log] 1 [of log] 2 [of log] by auto
  qed
  have order: "set [2, 0, 1] = {0..<length [?t0, ?t1, ?t2]}"
    by auto
  show ?thesis
    using parallel_batch_keeps_input_order [where order = "[2, 0, 1]"
        and tasks = "[?t0, ?t1, ?t2]" and results = "[?r0, ?r1, ?r2]" and self = ?self
        and lib = stub_lib and log = "[]"] all order
    by simp
qed

section \<open>Properties of the polling loops\<close>

lemma waited_snoc:
  "waited request pause (Suc n) = waited request pause n @ [request, Sleep pause]"
  by (induction n) auto

text \<open>
  A status other than \<^verbatim>\<open>completed\<close> and \<^verbatim>\<open>failed\<close> makes the Runway loop sleep five seconds
  and check again; the Midjourney loop does so on every status other than \<^verbatim>\<open>completed\<close>.
\<close>

lemma runway_poll_pending:
  assumes "session self = Some s"
    and "reported_status s log
           (Get (endpoint config @ ''generations/'' @ py_format lib generation_id)
              (bearer_headers config)) = Inr status"
    and "status \<noteq> PStr ''completed''" and "status \<noteq> PStr ''failed''"
  shows "runway_gen3_poll self lib config generation_id log =
         runway_gen3_poll self lib config generation_id
           (log @ [Get (endpoint config @ ''generations/'' @ py_format lib generation_id)
                     (bearer_headers config), Sleep 5])"
  using assms
  by (subst runway_gen3_poll.simps)
     (auto simp: session_get_def reported_status_def split: sum.splits)

lemma midjourney_poll_pending:
  assumes "session self = Some s"
    and "reported_status s log
           (Get (endpoint config @ ''job/'' @ py_format lib job_id) (bearer_headers config)) =
         Inr status"
    and "status \<noteq> PStr ''completed''"
  shows "midjourney_poll self lib config job_id log =
         midjourney_poll self lib config job_id
           (log @ [Get (endpoint config @ ''job/'' @ py_format lib job_id)
                     (bearer_headers config), Sleep 3])"
  using assms
  by (subst midjourney_poll.simps)
     (auto simp: session_get_def reported_status_def split: sum.splits)

lemma runway_poll_waits:
  assumes "session self = Some s"
    and "\<forall>j<n. \<exists>status. reported_status s (log @ waited request 5 j) request = Inr status
            \<and> status \<noteq> PStr ''completed'' \<and> status \<noteq> PStr ''failed''"
    and "request = Get (endpoint config @ ''generations/'' @ py_format lib generation_id)
              (bearer_headers config)"
  shows "runway_gen3_poll self lib config generation_id log =
         runway_gen3_poll self lib config generation_id (log @ waited request 5 n)"
  using assms(2)
proof (induction n)
  case 0
  then show ?case by simp
next
  case (Suc n)
  then obtain status where st: "reported_status s (log @ waited request 5 n) request = Inr status"
    "status \<noteq> PStr ''completed''" "status \<noteq> PStr ''failed''"
    by blast
  from Suc have "runway_gen3_poll self lib config generation_id log =
         runway_gen3_poll self lib config generation_id (log @ waited request 5 n)"
    by simp
  also have "\<dots> = runway_gen3_poll self lib config generation_id
      ((log @ waited request 5 n) @ [request, Sleep 5])"
    using runway_poll_pending [OF assms(1) st(1) [unfolded assms(3)] st(2,3)]
    by (simp add: assms(3))
  finally show ?case by (simp only: waited_snoc append_assoc)
qed


lemma midjourney_poll_waits:
  assumes "session self = Some s"
    and "\<forall>j<n. \<exists>status. reported_status s (log @ waited request 3 j) request = Inr status
            \<and> status \<noteq> PStr ''completed''"
    and "request = Get (endpoint config @ ''job/'' @ py_format lib job_id) (bearer_headers config)"
  shows "midjourney_poll self lib config job_id log =
         midjourney_poll self lib config job_id (log @ waited request 3 n)"
  using assms(2)
proof (induction n)
  case 0
  then show ?case by simp
next
  case (Suc n)
  then obtain status where st: "reported_status s (log @ waited request 3 n) request = Inr status"
    "status \<noteq> PStr ''completed''"
    by blast
  from Suc have "midjourney_poll self lib config job_id log =
         midjourney_poll self lib config job_id (log @ waited request 3 n)"
    by simp
  also have "\<dots> = midjourney_poll self lib config job_id
      ((log @ waited request 3 n) @ [request, Sleep 3])"
    using midjourney_poll_pending [OF assms(1) st(1) [unfolded assms(3)] st(2)]
    by (simp add: assms(3))
  finally show ?case by (simp only: waited_snoc append_assoc)
qed

text \<open>
  The loops stop at the first terminal status they know: \<^verbatim>\<open>completed\<close> gives the result,
  and for Runway \<^verbatim>\<open>failed\<close> gives an exception that carries the vendor's \<^verbatim>\<open>error\<close>.
\<close>

lemma runway_poll_completed:
  assumes "session self = Some s"
    and "s log (Get (endpoint config @ ''generations/'' @ py_format lib generation_id)
              (bearer_headers config)) = Inr status_response"
    and "json status_response = Inr status_data"
    and "subscript status_data ''status'' = Inr (PStr ''completed'')"
    and "subscript status_data ''output_url'' = Inr output_url"
  shows "runway_gen3_poll self lib config generation_id log =
         Some (Inr (PDict [(''url'', output_url), (''provider'', PStr ''Runway Gen-3''),
                           (''cost'', PFloat (cost_per_request config))]),
               log @ [Get (endpoint config @ ''generations/'' @ py_format lib generation_id)
                        (bearer_headers config)])"
  using assms
  by (subst runway_gen3_poll.simps) (simp add: session_get_def)

lemma runway_poll_failed:
  assumes "session self = Some s"
    and "s log (Get (endpoint config @ ''generations/'' @ py_format lib generation_id)
              (bearer_headers config)) = Inr status_response"
    and "json status_response = Inr (PDict status_data)"
    and "map_of status_data ''status'' = Some (PStr ''failed'')"
  shows "runway_gen3_poll self lib config generation_id log =
         Some (Inl (Exception (''Generation failed: '' @
                      py_format lib (dict_get status_data ''error''))),
               log @ [Get (endpoint config @ ''generations/'' @ py_format lib generation_id)
                        (bearer_headers config)])"
  using assms
  by (subst runway_gen3_poll.simps) (simp add: session_get_def)

lemma midjourney_poll_completed:
  assumes "session self = Some s"
    and "s log (Get (endpoint config @ ''job/'' @ py_format lib job_id)
              (bearer_headers config)) = Inr status_response"
    and "json status_response = Inr status_data"
    and "subscript status_data ''status'' = Inr (PStr ''completed'')"
    and "subscript status_data ''image_urls'' = Inr image_urls"
  shows "midjourney_poll self lib config job_id log =
         Some (Inr (PDict [(''urls'', image_urls), (''provider'', PStr ''Midjourney''),
                           (''cost'', PFloat (cost_per_request config))]),
               log @ [Get (endpoint config @ ''job/'' @ py_format lib job_id)
                        (bearer_headers config)])"
  using assms
  by (subst midjourney_poll.simps) (simp add: session_get_def)

text \<open>
  The Midjourney loop never returns when no status check ever reports \<^verbatim>\<open>completed\<close>.
\<close>

lemma midjourney_poll_never_returns:
  assumes s: "session self = Some s"
    and request: "request = Get (endpoint config @ ''job/'' @ py_format lib job_id)
       (bearer_headers config)"
    and pending: "\<forall>n. \<exists>status. reported_status s (log @ waited request 3 n) request = Inr status
            \<and> status \<noteq> PStr ''completed''"
  shows "midjourney_poll self lib config job_id log = None"
proof (rule ccontr)
  assume "midjourney_poll self lib config job_id log \<noteq> None"
  then obtain y where y: "midjourney_poll self lib config job_id log = Some y"
    by blast
  have "\<not> (self' = self \<and> lib' = lib \<and> config' = config \<and> job' = job_id
      \<and> (\<forall>n. \<exists>status. reported_status s (log' @ waited request 3 n) request = Inr status
            \<and> status \<noteq> PStr ''completed''))"
    if "midjourney_poll self' lib' config' job' log' = Some y'" for self' lib' config' job' log' y'
  proof (rule midjourney_poll.raw_induct
      [where P = "\<lambda>self' lib' config' job' log' y'.
         \<not> (self' = self \<and> lib' = lib \<and> config' = config \<and> job' = job_id
      \<and> (\<forall>n. \<exists>status. reported_status s (log' @ waited request 3 n) request = Inr status
            \<and> status \<noteq> PStr ''completed''))", OF _ that], goal_cases)
    case (1 poll self' lib' config' job' log' y')
    show ?case
    proof
      assume a: "self' = self \<and> lib' = lib \<and> config' = config \<and> job' = job_id
        \<and> (\<forall>n. \<exists>status. reported_status s (log' @ waited request 3 n) request = Inr status
            \<and> status \<noteq> PStr ''completed'')"
      then obtain status where st: "reported_status s log' request = Inr status"
        "status \<noteq> PStr ''completed''"
        using waited.simps(1) by (metis append_Nil2)
      from a have later: "\<forall>n. \<exists>status.
          reported_status s ((log' @ [request, Sleep 3]) @ waited request 3 n) request = Inr status
            \<and> status \<noteq> PStr ''completed''"
      proof (intro allI)
        fix n
        from a have "\<exists>status.
          reported_status s (log' @ waited request 3 (Suc n)) request = Inr status
            \<and> status \<noteq> PStr ''completed''" by blast
        then show "\<exists>status.
          reported_status s ((log' @ [request, Sleep 3]) @ waited request 3 n) request = Inr status
            \<and> status \<noteq> PStr ''completed''" by simp
      qed
      from 1(2) a st s have "poll self lib config job_id (log' @ [request, Sleep 3]) = Some y'"
        by (auto simp: session_get_def reported_status_def request split: sum.splits)
      from 1(1) [OF this] later show False by blast
    qed
  qed
  from this [OF y] pending show False by blast
qed


text \<open>
  C1 fails on the code for the Midjourney adapter. Against a vendor whose status endpoint
  reports \<^verbatim>\<open>failed\<close> with the reason "quota exceeded", \<^verbatim>\<open>generate_image\<close> with the Midjourney
  provider never returns: the loop has no branch for \<^verbatim>\<open>failed\<close> and polls forever. Against
  the same vendor \<^verbatim>\<open>generate_video\<close> with the Runway provider raises the exception that
  carries the reason, as the claim says both should.
\<close>

theorem midjourney_ignores_failed_status:
  "generate_image
     (initialize
        (constant_vendor (PDict [(''id'', PStr ''j1''), (''job_id'', PStr ''j1'')])
           (PDict [(''status'', PStr ''failed''), (''error'', PStr ''quota exceeded'')]))
        (init environ))
     lib (PStr prompt) (PEnum MIDJOURNEY) negative_prompt PNone [] log = None
   \<and> map_option fst (generate_video
     (initialize
        (constant_vendor (PDict [(''id'', PStr ''j1''), (''job_id'', PStr ''j1'')])
           (PDict [(''status'', PStr ''failed''), (''error'', PStr ''quota exceeded'')]))
        (init environ))
     lib (PStr prompt) (PEnum RUNWAY_GEN3) PNone (PInt 5) (PStr ''1280x720'') [] log) =
     Some (Inl (Exception ''Generation failed: quota exceeded''))"
proof
  let ?vendor = "constant_vendor (PDict [(''id'', PStr ''j1''), (''job_id'', PStr ''j1'')])
           (PDict [(''status'', PStr ''failed''), (''error'', PStr ''quota exceeded'')])"
  let ?self = "initialize ?vendor (init environ)"
  have s: "session ?self = Some ?vendor"
    by (simp add: initialize_def init_def)
  have pending: "\<forall>n. \<exists>status. reported_status ?vendor (log1 @ waited request 3 n) request = Inr status
            \<and> status \<noteq> PStr ''completed''"
    if "request = Get url headers" for request url headers log1
    using that by (simp add: reported_status_def constant_vendor_def)
  have never: "midjourney_poll ?self lib config (PStr ''j1'') log1 = None" for config log1
    by (rule midjourney_poll_never_returns [OF s refl pending [OF refl]])
  obtain config where config: "configs ?self MIDJOURNEY = Some config"
    by (simp add: initialize_def init_def load_api_configs_def)
  show "generate_image ?self lib (PStr prompt) (PEnum MIDJOURNEY) negative_prompt PNone [] log
      = None"
    by (simp add: generate_image_def call_keywords_def midjourney_image_def
        midjourney_prompt_def dict_get_def session_post_def s config constant_vendor_def never)
  show "map_option fst (generate_video ?self lib (PStr prompt) (PEnum RUNWAY_GEN3) PNone (PInt 5)
      (PStr ''1280x720'') [] log) = Some (Inl (Exception ''Generation failed: quota exceeded''))"
    by (simp add: generate_video_def runway_gen3_video_def runway_gen3_data_def dict_get_def
        session_post_def session_get_def constant_vendor_def runway_gen3_poll.simps
        initialize_def init_def load_api_configs_def)
qed

text \<open>
  The part of C1 that holds for both adapters: against a vendor that reports
  \<^verbatim>\<open>processing\<close>, \<^verbatim>\<open>processing\<close>, \<^verbatim>\<open>completed\<close>, each adapter makes exactly three status
  checks, sleeping between them, and returns its result after the third.
\<close>

lemma runway_three_status_checks:
  "generate_video
     (initialize
        (scripted_vendor (PDict [(''id'', PStr ''j1'')])
           [PDict [(''status'', PStr ''processing'')], PDict [(''status'', PStr ''processing'')],
            PDict [(''status'', PStr ''completed''), (''output_url'', PStr ''https://cdn/v.mp4'')]])
        (init no_environ))
     stub_lib (PStr ''a cat'') (PEnum RUNWAY_GEN3) PNone (PInt 5) (PStr ''1280x720'') [] [] =
   Some (Inr (PDict [(''url'', PStr ''https://cdn/v.mp4''), (''provider'', PStr ''Runway Gen-3''),
                     (''cost'', PFloat (float_lit 5 2))]),
     [Post ''https://api.runwayml.com/v1/generations''
        [(''Authorization'', ''Bearer ''), (''Content-Type'', ''application/json'')]
        (PDict [(''text_prompt'', PStr ''a cat''), (''duration'', PInt 5),
                (''resolution'', PStr ''1280x720''), (''model'', PStr ''gen3_alpha'')]),
      Get ''https://api.runwayml.com/v1/generations/j1''
        [(''Authorization'', ''Bearer ''), (''Content-Type'', ''application/json'')],
      Sleep 5,
      Get ''https://api.runwayml.com/v1/generations/j1''
        [(''Authorization'', ''Bearer ''), (''Content-Type'', ''application/json'')],
      Sleep 5,
      Get ''https://api.runwayml.com/v1/generations/j1''
        [(''Authorization'', ''Bearer ''), (''Content-Type'', ''application/json'')]])"
  by (simp add: generate_video_def runway_gen3_video_def runway_gen3_data_def dict_get_def
      session_post_def session_get_def scripted_vendor_def runway_gen3_poll.simps
      initialize_def init_def load_api_configs_def bearer_headers_def getenv_def no_environ_def)

lemma midjourney_three_status_checks:
  "generate_image
     (initialize
        (scripted_vendor (PDict [(''job_id'', PStr ''j1'')])
           [PDict [(''status'', PStr ''processing'')], PDict [(''status'', PStr ''processing'')],
            PDict [(''status'', PStr ''completed''),
                   (''image_urls'', PList [PStr ''https://cdn/i.png''])]])
        (init no_environ))
     stub_lib (PStr ''a cat'') (PEnum MIDJOURNEY) PNone PNone [] [] =
   Some (Inr (PDict [(''urls'', PList [PStr ''https://cdn/i.png'']),
                     (''provider'', PStr ''Midjourney''), (''cost'', PFloat (float_lit 2 2))]),
     [Post ''https://api.midjourney.com/v1/imagine''
        [(''Authorization'', ''Bearer ''), (''Content-Type'', ''application/json'')]
        (PDict [(''prompt'', PStr ''a cat''), (''version'', PStr ''6.0'')]),
      Get ''https://api.midjourney.com/v1/job/j1''
        [(''Authorization'', ''Bearer ''), (''Content-Type'', ''application/json'')],
      Sleep 3,
      Get ''https://api.midjourney.com/v1/job/j1''
        [(''Authorization'', ''Bearer ''), (''Content-Type'', ''application/json'')],
      Sleep 3,
      Get ''https://api.midjourney.com/v1/job/j1''
        [(''Authorization'', ''Bearer ''), (''Content-Type'', ''application/json'')]])"
  by (simp add: generate_image_def call_keywords_def midjourney_image_def midjourney_prompt_def
      dict_get_def session_post_def session_get_def scripted_vendor_def midjourney_poll.simps
      initialize_def init_def load_api_configs_def bearer_headers_def getenv_def no_environ_def)

end
